theory Spec2Isabelle
  imports Complex_Main
begin

section \<open>The site-layout generator (services/generator.ts)\<close>

text \<open>
  The generator is one exported function, \<open>generateBuilding\<close>, over GeoJSON features and
  the turf geometry library. JavaScript numbers are modelled as \<open>real\<close>; non-finite
  values (\<open>NaN\<close>, \<open>Infinity\<close>), and with them rounding and a division by zero, are
  outside the model. The turf library is not part of the repository: its operations
  are the fields of the record \<open>turf\<close>, and the statements below are about every
  library of that signature. The argument \<open>points\<close> is a list (the \<open>null\<close> that the
  guard of line 74 also accepts is not modelled). An exception is a value \<open>Inl e\<close> of
  a sum type; a run that never returns is \<open>None\<close>.
\<close>

subsection \<open>GeoJSON data (types.ts and the geojson package)\<close>

type_synonym Position = "real \<times> real"

type_synonym BBox = "real \<times> real \<times> real \<times> real"

datatype geometry =
    Point Position
  | LineString "Position list"
  | MultiLineString "Position list list"
  | Polygon "Position list list"
  | MultiPolygon "Position list list list"

datatype pval = PNum real | PBool bool | PStr string

record feature =
  geometry :: geometry
  properties :: "string \<rightharpoonup> pval"

datatype geojson = Feature feature | FeatureCollection "feature list"

datatype units = Kilometers | Meters

datatype exn =
    AreaTooSmall
  | TypeError
  | LibraryError

record LatLng =
  lat :: real
  lng :: real

record SiteConfig =
  roadWidth :: real
  lotWidth :: real
  lotDepth :: real
  parkPercentage :: real
  stories :: real
  entryIndex :: real

record ProjectStats =
  siteArea :: real
  netSellableArea :: real
  roadArea :: real
  parkArea :: real
  totalLots :: real
  efficiency :: real
  possibleEntrances :: real

datatype AccessType = GATE | ROUNDABOUT

record AccessControl =
  actype :: AccessType
  island :: feature
  guardHouse :: "feature option"
  barriers :: "feature list option"
  roundaboutExt :: "feature option"
  entryPoint :: LatLng
  rotation :: real

datatype ConstraintType = PARK_ANCHOR

record UserConstraint =
  cid :: string
  ctype :: ConstraintType
  position :: LatLng

text \<open>\<open>perimeterWalls\<close> holds what the source pushes: \<open>boundaryLine\<close>, which is
  \<open>undefined\<close> (\<open>None\<close>) when \<open>polygonToLine\<close> returns an empty collection.\<close>

record GeneratedGeometry =
  siteBoundary :: "feature option"
  superblocks :: "feature list"
  roads :: "feature list"
  lots :: "feature list"
  buildings :: "feature list"
  parks :: "feature list"
  trees :: "feature list"
  perimeterWalls :: "feature option list"
  accessControl :: "AccessControl option"
  roadMarkings :: "feature list"
  stopSigns :: "feature list"
  entranceCandidates :: "LatLng list"
  isValid :: bool
  error :: "string option"

subsection \<open>The turf operations the generator calls\<close>

text \<open>
  The operations that validate or rebuild a geometry may throw (\<open>exn + 'a\<close>):
  \<open>polygon\<close>, \<open>cleanCoords\<close>, \<open>intersect\<close>, \<open>difference\<close>, \<open>union\<close>, \<open>buffer\<close>,
  \<open>dissolve\<close>, \<open>polygonToLine\<close>, \<open>lineIntersect\<close> and \<open>lineSplit\<close>. An operation that
  may return \<open>null\<close> returns an option. Measures (\<open>area\<close>, \<open>distance\<close>, \<open>bearing\<close>,
  \<open>length\<close>, \<open>bbox\<close>), predicates and the transformations of coordinates
  (\<open>rewind\<close>, \<open>transformRotate\<close>, \<open>destination\<close>, \<open>circle\<close>, \<open>along\<close>, ...) are taken
  to return on every argument. Each operation is a function of its arguments.
\<close>

record turf =
  turf_polygon :: "Position list list \<Rightarrow> exn + feature"
  turf_cleanCoords :: "feature \<Rightarrow> exn + feature"
  turf_rewind :: "feature \<Rightarrow> feature"
  turf_kinks :: "feature \<Rightarrow> Position list"
  turf_area :: "feature \<Rightarrow> real"
  turf_center :: "feature \<Rightarrow> Position"
  turf_distance :: "units \<Rightarrow> Position \<Rightarrow> Position \<Rightarrow> real"
  turf_bearing :: "Position \<Rightarrow> Position \<Rightarrow> real"
  turf_transformRotate :: "feature \<Rightarrow> real \<Rightarrow> Position \<Rightarrow> feature"
  turf_bbox :: "feature \<Rightarrow> BBox"
  turf_bboxPolygon :: "BBox \<Rightarrow> feature"
  turf_booleanIntersects :: "feature \<Rightarrow> feature \<Rightarrow> bool"
  turf_booleanPointInPolygon :: "Position \<Rightarrow> feature \<Rightarrow> bool"
  turf_intersect :: "feature list \<Rightarrow> exn + feature option"
  turf_difference :: "feature list \<Rightarrow> exn + feature option"
  turf_union :: "feature list \<Rightarrow> exn + feature option"
  turf_buffer :: "feature \<Rightarrow> real \<Rightarrow> units \<Rightarrow> exn + feature option"
  turf_dissolve :: "feature list \<Rightarrow> exn + feature list"
  turf_polygonToLine :: "feature \<Rightarrow> exn + geojson"
  turf_nearestPointOnLine :: "feature \<Rightarrow> Position \<Rightarrow> Position"
  turf_lineIntersect :: "feature \<Rightarrow> feature \<Rightarrow> exn + Position list"
  turf_destination :: "Position \<Rightarrow> real \<Rightarrow> real \<Rightarrow> units \<Rightarrow> Position"
  turf_circle :: "Position \<Rightarrow> real \<Rightarrow> units \<Rightarrow> nat \<Rightarrow> feature"
  turf_lineSplit :: "feature option \<Rightarrow> geojson \<Rightarrow> exn + feature list option"
  turf_length :: "feature \<Rightarrow> real"
  turf_along :: "feature \<Rightarrow> real \<Rightarrow> Position"

text \<open>The helpers \<open>point\<close>, \<open>lineString\<close> and \<open>multiPolygon\<close> of @turf/helpers
  wrap coordinates in a feature with empty properties.\<close>

definition point :: "Position \<Rightarrow> feature" where
  "point c = \<lparr>geometry = Point c, properties = Map.empty\<rparr>"

definition lineString :: "Position list \<Rightarrow> feature" where
  "lineString cs = \<lparr>geometry = LineString cs, properties = Map.empty\<rparr>"

definition multiPolygon :: "Position list list list \<Rightarrow> feature" where
  "multiPolygon cs = \<lparr>geometry = MultiPolygon cs, properties = Map.empty\<rparr>"

text \<open>Reading \<open>f.geometry.coordinates\<close> of a feature typed \<open>Feature<Point>\<close>.\<close>

definition getCoord :: "feature \<Rightarrow> Position" where
  "getCoord f = (case geometry f of Point c \<Rightarrow> c | _ \<Rightarrow> (0, 0))"

subsection \<open>getPrincipalAxis and safePolygonToLine (lines 6-40)\<close>

text \<open>The loop over the edges of the outer ring, with \<open>maxLen\<close> and \<open>bestBearing\<close>.\<close>

fun axisLoop :: "turf \<Rightarrow> Position list \<Rightarrow> real \<Rightarrow> real \<Rightarrow> real" where
  "axisLoop T (a # b # cs) maxLen bestBearing =
     (let dist = turf_distance T Kilometers a b in
      if dist > maxLen then axisLoop T (b # cs) dist (turf_bearing T a b)
      else axisLoop T (b # cs) maxLen bestBearing)"
| "axisLoop T cs maxLen bestBearing = bestBearing"

text \<open>The parameter is typed \<open>Feature<Polygon>\<close>; on any other geometry the model
  returns 0, as on a polygon without rings.\<close>

definition getPrincipalAxis :: "turf \<Rightarrow> feature \<Rightarrow> real" where
  "getPrincipalAxis T poly =
     (case geometry poly of
        Polygon [] \<Rightarrow> 0
      | Polygon (coords # rest) \<Rightarrow> if length coords < 2 then 0 else axisLoop T coords 0 0
      | _ \<Rightarrow> 0)"

definition safePolygonToLine :: "turf \<Rightarrow> feature \<Rightarrow> feature option" where
  "safePolygonToLine T poly =
     (case turf_polygonToLine T poly of
        Inl e \<Rightarrow> None
      | Inr (Feature f) \<Rightarrow> (case geometry f of LineString cs \<Rightarrow> Some f | _ \<Rightarrow> None)
      | Inr (FeatureCollection fs) \<Rightarrow> (case fs of [] \<Rightarrow> None | f # rest \<Rightarrow> Some f))"

subsection \<open>Alignment and grid constants (lines 114-162)\<close>

record WorkingConstraint = UserConstraint +
  localPos :: feature

record Locals =
  center :: Position
  alignmentAngle :: real
  workingSitePoly :: feature
  workingEffectivePoly :: feature
  Mx :: real
  My :: real
  bbox :: BBox
  blockDepthDeg :: real
  targetBlockWidthDeg :: real
  roadWidthDegX :: real
  roadWidthDegY :: real
  xStep :: real
  yStep :: real
  numCols :: int
  numRows :: int
  startX :: real
  startY :: real

definition bufferCols :: int where "bufferCols = 2"
definition bufferRows :: int where "bufferRows = 2"
definition lotsPerBlockRow :: real where "lotsPerBlockRow = 8"

definition computeLocals :: "turf \<Rightarrow> SiteConfig \<Rightarrow> feature \<Rightarrow> Locals" where
  "computeLocals T config originalSitePoly =
     (let center = turf_center T originalSitePoly;
          effectiveSitePoly = originalSitePoly;
          alignmentAngle = getPrincipalAxis T originalSitePoly;
          workingSitePoly = turf_transformRotate T originalSitePoly (- alignmentAngle) center;
          workingEffectivePoly = turf_transformRotate T effectiveSitePoly (- alignmentAngle) center;
          centerLat = snd center;
          My = 1 / 111320;
          Mx = 1 / (111320 * cos (centerLat * pi / 180));
          bbox = turf_bbox T workingEffectivePoly;
          blockDepthDeg = (lotDepth config * 2) * My;
          targetBlockWidthDeg = (lotWidth config * lotsPerBlockRow) * Mx;
          roadWidthDegX = roadWidth config * Mx;
          roadWidthDegY = roadWidth config * My;
          xStep = targetBlockWidthDeg + roadWidthDegX;
          yStep = blockDepthDeg + roadWidthDegY
      in case bbox of (b0, b1, b2, b3) \<Rightarrow>
         (let width = b2 - b0;
              height = b3 - b1;
              numCols = \<lceil>width / xStep\<rceil>;
              numRows = \<lceil>height / yStep\<rceil>;
              startX = b0 + (width - (of_int numCols * xStep)) / 2;
              startY = b1 + (height - (of_int numRows * yStep)) / 2
          in \<lparr>center = center, alignmentAngle = alignmentAngle,
               workingSitePoly = workingSitePoly, workingEffectivePoly = workingEffectivePoly,
               Mx = Mx, My = My, bbox = bbox, blockDepthDeg = blockDepthDeg,
               targetBlockWidthDeg = targetBlockWidthDeg,
               roadWidthDegX = roadWidthDegX, roadWidthDegY = roadWidthDegY,
               xStep = xStep, yStep = yStep, numCols = numCols, numRows = numRows,
               startX = startX, startY = startY\<rparr>))"

definition workingConstraints :: "turf \<Rightarrow> Locals \<Rightarrow> UserConstraint list \<Rightarrow> WorkingConstraint list" where
  "workingConstraints T L constraints =
     map (\<lambda>c. let pt = point (lng (position c), lat (position c));
                   rotatedPt = turf_transformRotate T pt (- alignmentAngle L) (center L)
               in \<lparr>cid = cid c, ctype = ctype c, position = position c, localPos = rotatedPt\<rparr>)
         constraints"

subsection \<open>The block grid (lines 141-201)\<close>

datatype BlockType = Unknown | Park | Residential

record GridCell =
  poly :: feature
  btype :: BlockType
  originalPoly :: feature
  col :: nat
  row :: nat
  originalBbox :: BBox

text \<open>The body of the inner loop, on \<open>gridInfo\<close>, \<open>intersections\<close> and
  \<open>rowCounter\<close>. The \<open>continue\<close> of the \<open>catch\<close> skips \<open>rowCounter++\<close>.\<close>

definition gridCell ::
  "turf \<Rightarrow> Locals \<Rightarrow> nat \<Rightarrow> real \<Rightarrow> int \<Rightarrow>
   GridCell list \<times> Position list \<times> nat \<Rightarrow> GridCell list \<times> Position list \<times> nat" where
  "gridCell T L colCounter x j st =
     (case st of (gridInfo, intersections, rowCounter) \<Rightarrow>
      let y = startY L + (of_int j * yStep L);
          cellBox = (x, y, x + targetBlockWidthDeg L, y + blockDepthDeg L);
          cellPoly = turf_bboxPolygon T cellBox;
          intersectX = x + targetBlockWidthDeg L + (roadWidthDegX L / 2);
          intersectY = y + blockDepthDeg L + (roadWidthDegY L / 2);
          intersections' = intersections @ [(intersectX, intersectY)]
      in if turf_booleanIntersects T cellPoly (workingEffectivePoly L) then
           (case turf_intersect T [cellPoly, workingEffectivePoly L] of
              Inl e \<Rightarrow> (gridInfo, intersections', rowCounter)
            | Inr None \<Rightarrow> (gridInfo, intersections', rowCounter + 1)
            | Inr (Some intersection) \<Rightarrow>
                if turf_area T intersection > 50
                then (gridInfo @ [\<lparr>poly = intersection, btype = Unknown, originalPoly = cellPoly,
                                   col = colCounter, row = rowCounter, originalBbox = cellBox\<rparr>],
                      intersections', rowCounter + 1)
                else (gridInfo, intersections', rowCounter + 1))
         else (gridInfo, intersections', rowCounter + 1))"

text \<open>The body of the outer loop, on \<open>gridInfo\<close>, \<open>intersections\<close> and
  \<open>colCounter\<close>.\<close>

definition gridColumn ::
  "turf \<Rightarrow> Locals \<Rightarrow> int \<Rightarrow>
   GridCell list \<times> Position list \<times> nat \<Rightarrow> GridCell list \<times> Position list \<times> nat" where
  "gridColumn T L i st =
     (case st of (gridInfo, intersections, colCounter) \<Rightarrow>
      let x = startX L + (of_int i * xStep L) in
      case fold (gridCell T L colCounter x) [- bufferRows ..  numRows L + bufferRows - 1]
             (gridInfo, intersections, 0) of
        (gridInfo', intersections', rowCounter) \<Rightarrow> (gridInfo', intersections', colCounter + 1))"

definition buildGrid :: "turf \<Rightarrow> Locals \<Rightarrow> GridCell list \<times> Position list" where
  "buildGrid T L =
     (case fold (gridColumn T L) [- bufferCols .. numCols L + bufferCols - 1] ([], [], 0) of
        (gridInfo, intersections, colCounter) \<Rightarrow> (gridInfo, intersections))"

subsection \<open>Park and residential blocks (lines 203-238, 278-279)\<close>

definition isForcedPark :: "turf \<Rightarrow> WorkingConstraint list \<Rightarrow> GridCell \<Rightarrow> bool" where
  "isForcedPark T wcs block =
     list_ex (\<lambda>c. if ctype c = PARK_ANCHOR
                   then turf_booleanPointInPolygon T (getCoord (localPos c)) (poly block)
                   else False) wcs"

definition sumAreas :: "turf \<Rightarrow> feature list \<Rightarrow> real" where
  "sumAreas T fs = foldl (\<lambda>acc item. acc + turf_area T item) 0 fs"

text \<open>The greedy pass over \<open>potentialParks\<close>, with \<open>currentParkArea\<close>.\<close>

fun assignParks :: "turf \<Rightarrow> real \<Rightarrow> real \<Rightarrow> GridCell list \<Rightarrow> GridCell list" where
  "assignParks T targetParkArea currentParkArea [] = []"
| "assignParks T targetParkArea currentParkArea (block # rest) =
     (if currentParkArea < targetParkArea
      then block\<lparr>btype := Park\<rparr> #
           assignParks T targetParkArea (currentParkArea + turf_area T (poly block)) rest
      else block\<lparr>btype := Residential\<rparr> #
           assignParks T targetParkArea currentParkArea rest)"

text \<open>
  \<open>potentialParks\<close> holds the same objects as \<open>gridInfo\<close>, so the greedy pass
  already retypes the blocks of \<open>gridInfo\<close>, and the second \<open>forEach\<close>, which
  looks each block up by the identity of its polygon, finds that same object. An
  object is identified here by its \<open>(col, row)\<close>, which no two blocks share.
  \<open>Array.prototype.sort\<close> is stable, as \<open>sort_key\<close> is.
\<close>

definition classify ::
  "turf \<Rightarrow> SiteConfig \<Rightarrow> WorkingConstraint list \<Rightarrow> GridCell list \<Rightarrow> GridCell list" where
  "classify T config wcs gridInfo0 =
     (let gridInfo1 = map (\<lambda>block. if isForcedPark T wcs block then block\<lparr>btype := Park\<rparr> else block)
                          gridInfo0;
          totalBlockArea = sumAreas T (map poly gridInfo1);
          targetParkArea = totalBlockArea * (parkPercentage config / 100);
          currentParkArea = sumAreas T (map poly (filter (\<lambda>b. btype b = Park) gridInfo1));
          gridInfo2 = sort_key (\<lambda>b. - turf_area T (poly b)) gridInfo1;
          potentialParks = sort_key (\<lambda>b. turf_area T (poly b))
                             (filter (\<lambda>b. btype b = Unknown) gridInfo2);
          assigned = assignParks T targetParkArea currentParkArea potentialParks
      in map (\<lambda>g. case find (\<lambda>p. col p = col g \<and> row p = row g) assigned of
                     Some p \<Rightarrow> g\<lparr>btype := btype p\<rparr>
                   | None \<Rightarrow> g) gridInfo2)"

subsection \<open>Sliver repair: the merge loop of processZone (lines 356-413)\<close>

text \<open>The inner \<open>for\<close> loop: the first lot of least area among those under
  \<open>minViableArea\<close>. \<open>minScore\<close> starts at \<open>Infinity\<close>, here \<open>None\<close>.\<close>

fun findWorst :: "turf \<Rightarrow> real \<Rightarrow> feature list \<Rightarrow> nat \<Rightarrow> nat option \<Rightarrow> real option \<Rightarrow> nat option" where
  "findWorst T minViableArea [] i worstIdx minScore = worstIdx"
| "findWorst T minViableArea (l # ls) i worstIdx minScore =
     (let a = turf_area T l in
      if a < minViableArea \<and> (case minScore of None \<Rightarrow> True | Some m \<Rightarrow> a < m)
      then findWorst T minViableArea ls (i + 1) (Some i) (Some a)
      else findWorst T minViableArea ls (i + 1) worstIdx minScore)"

text \<open>The choice of \<open>targetIdx\<close>; \<open>None\<close> is the source's \<open>-1\<close>.\<close>

definition chooseTarget :: "turf \<Rightarrow> feature list \<Rightarrow> nat \<Rightarrow> nat option" where
  "chooseTarget T mergedLots worstIdx =
     (let mergeLeft = worstIdx > 0;
          mergeRight = int worstIdx < int (length mergedLots) - 1
      in if mergeLeft \<and> \<not> mergeRight then Some (worstIdx - 1)
         else if mergeRight \<and> \<not> mergeLeft then Some (worstIdx + 1)
         else if mergeLeft \<and> mergeRight then
           (let areaLeft = turf_area T (mergedLots ! (worstIdx - 1));
                areaRight = turf_area T (mergedLots ! (worstIdx + 1))
            in if areaLeft < areaRight then Some (worstIdx - 1) else Some (worstIdx + 1))
         else None)"

text \<open>One pass of the \<open>while\<close> body: the new value of \<open>keepMerging\<close> and the list.\<close>

definition mergeStep :: "turf \<Rightarrow> real \<Rightarrow> feature list \<Rightarrow> bool \<times> feature list" where
  "mergeStep T targetLotArea mergedLots =
     (let minViableArea = targetLotArea * 0.75 in
      case findWorst T minViableArea mergedLots 0 None None of
        None \<Rightarrow> (False, mergedLots)
      | Some worstIdx \<Rightarrow>
          (case chooseTarget T mergedLots worstIdx of
             Some targetIdx \<Rightarrow>
               (let idxA = min worstIdx targetIdx; idxB = max worstIdx targetIdx in
                case turf_union T [mergedLots ! idxA, mergedLots ! idxB] of
                  Inr (Some u) \<Rightarrow> (True, take idxA mergedLots @ [u] @ drop (idxA + 2) mergedLots)
                | Inr None \<Rightarrow> (False, mergedLots)
                | Inl e \<Rightarrow> (False, mergedLots))
           | None \<Rightarrow>
               if turf_area T (mergedLots ! worstIdx) < targetLotArea * 0.4
               then (True, take worstIdx mergedLots @ drop (worstIdx + 1) mergedLots)
               else (False, mergedLots)))"

lemma findWorst_range:
  "findWorst T m ls i w s = Some k \<Longrightarrow> (w = Some k) \<or> (i \<le> k \<and> k < i + length ls)"
proof (induction ls arbitrary: i w s)
  case Nil
  then show ?case by simp
next
  case (Cons l ls)
  then show ?case
    by (fastforce simp: Let_def split: if_splits)
qed

lemma mergeStep_shrinks:
  assumes "mergeStep T a ml = (True, ml')"
  shows "length ml' < length ml"
proof -
  obtain w where w: "findWorst T (a * 0.75) ml 0 None None = Some w"
    using assms by (auto simp: mergeStep_def Let_def split: option.splits)
  have wl: "w < length ml"
    using findWorst_range [OF w] by simp
  show ?thesis
  proof (cases "chooseTarget T ml w")
    case None
    then show ?thesis
      using assms w wl by (auto simp: mergeStep_def Let_def split: if_splits)
  next
    case (Some t)
    have "min w t + 2 \<le> length ml"
      using Some wl by (auto simp: chooseTarget_def Let_def split: if_splits)
    then show ?thesis
      using assms w Some
      by (auto simp: mergeStep_def Let_def split: sum.splits option.splits)
  qed
qed

function mergeLots :: "turf \<Rightarrow> real \<Rightarrow> feature list \<Rightarrow> feature list" where
  "mergeLots T targetLotArea mergedLots =
     (if mergedLots = [] then mergedLots
      else (case mergeStep T targetLotArea mergedLots of
              (True, mergedLots') \<Rightarrow> mergeLots T targetLotArea mergedLots'
            | (False, mergedLots') \<Rightarrow> mergedLots'))"
  by pat_completeness auto
termination
  by (relation "measure (\<lambda>(T, a, ml). length ml)") (auto dest: mergeStep_shrinks [OF sym])

declare mergeLots.simps [simp del]

subsection \<open>The mutable state of a run and Math.random\<close>

text \<open>
  The arrays and counters that the closures of \<open>generateBuilding\<close> update, and the
  source of \<open>Math.random\<close>: the sequence of numbers that the calls of one run will
  return, the next one first.
\<close>

record GenState =
  tempLots :: "feature list"
  tempBuildings :: "feature list"
  tempParks :: "feature list"
  tempTrees :: "feature list"
  tempSuperblocks :: "feature list"
  globalLotIndex :: nat
  lotsGeneratedInBlock :: nat
  rng :: "nat \<Rightarrow> real"

definition mathRandom :: "GenState \<Rightarrow> real" where
  "mathRandom s = rng s 0"

definition advance :: "GenState \<Rightarrow> GenState" where
  "advance s = s\<lparr>rng := (\<lambda>n. rng s (Suc n))\<rparr>"

subsection \<open>fillParkWithTrees (lines 247-276)\<close>

function treeLoop ::
  "turf \<Rightarrow> BBox \<Rightarrow> feature \<Rightarrow> nat \<Rightarrow> int \<Rightarrow> int \<Rightarrow> feature list \<Rightarrow> int \<Rightarrow> GenState \<Rightarrow> GenState" where
  "treeLoop T parkBbox searchPoly parkId actualTarget maxAttempts placedTrees attempts s =
     (if int (length placedTrees) < actualTarget \<and> attempts < maxAttempts then
        (let lng = fst parkBbox + mathRandom s * (fst (snd (snd parkBbox)) - fst parkBbox);
             s1 = advance s;
             lat = fst (snd parkBbox)
                     + mathRandom s1 * (snd (snd (snd parkBbox)) - fst (snd parkBbox));
             s2 = advance s1;
             pt = point (lng, lat)
         in if turf_booleanPointInPolygon T (lng, lat) searchPoly then
              (let isTooClose =
                     list_ex (\<lambda>t. turf_distance T Meters (lng, lat) (getCoord t) < 4) placedTrees
               in if \<not> isTooClose then
                    (let pt' = pt\<lparr>properties :=
                                  [''type'' \<mapsto> PStr ''park-tree'', ''parkId'' \<mapsto> PNum (real parkId)]\<rparr>
                     in treeLoop T parkBbox searchPoly parkId actualTarget maxAttempts
                          (placedTrees @ [pt']) (attempts + 1)
                          (s2\<lparr>tempTrees := tempTrees s2 @ [pt']\<rparr>))
                  else treeLoop T parkBbox searchPoly parkId actualTarget maxAttempts
                         placedTrees (attempts + 1) s2)
            else treeLoop T parkBbox searchPoly parkId actualTarget maxAttempts
                   placedTrees (attempts + 1) s2)
      else s)"
  by pat_completeness auto
termination
  by (relation "measure (\<lambda>(T, b, sp, pid, tgt, maxAttempts, placed, attempts, s).
                           nat (maxAttempts - attempts))") auto

declare treeLoop.simps [simp del]

definition fillParkWithTrees :: "turf \<Rightarrow> feature \<Rightarrow> nat \<Rightarrow> GenState \<Rightarrow> GenState" where
  "fillParkWithTrees T parkPoly parkId s =
     (let parkArea = turf_area T parkPoly;
          density = 40;
          targetTreeCount = max 3 \<lfloor>parkArea / density\<rfloor>;
          maxTrees = 500;
          actualTarget = min targetTreeCount maxTrees;
          parkBbox = turf_bbox T parkPoly;
          searchPoly = (case turf_buffer T parkPoly (- 0.002) Kilometers of
                          Inr (Some buffered) \<Rightarrow> buffered
                        | Inr None \<Rightarrow> parkPoly
                        | Inl e \<Rightarrow> parkPoly);
          maxAttempts = actualTarget * 15
      in treeLoop T parkBbox searchPoly parkId actualTarget maxAttempts [] 0 s)"

text \<open>The three places that register a park (lines 480-484, 520-524, 528-532).\<close>

definition addPark :: "turf \<Rightarrow> feature \<Rightarrow> GenState \<Rightarrow> GenState" where
  "addPark T p s =
     (let parkIndex = length (tempParks s);
          p' = p\<lparr>properties := (properties p)(''parkId'' \<mapsto> PNum (real parkIndex))\<rparr>
      in fillParkWithTrees T p' parkIndex
           (s\<lparr>tempParks := tempParks s @ [p'], tempSuperblocks := tempSuperblocks s @ [p']\<rparr>))"

subsection \<open>Assets of a surviving lot (lines 416-462)\<close>

text \<open>Building placement (lines 424-445): the footprint, clipped to the lot.\<close>

definition placeBuilding ::
  "turf \<Rightarrow> Locals \<Rightarrow> bool \<Rightarrow> feature \<Rightarrow> BBox \<Rightarrow> nat \<Rightarrow> GenState \<Rightarrow> GenState" where
  "placeBuilding T L isBottom lotShape lotBbox lotId s =
     (case lotBbox of (l0, l1, l2, l3) \<Rightarrow>
      let lotH = l3 - l1;
          sideSetback = 0.6 * Mx L;
          rearSetback = 1.0 * My L;
          depthFactor = 0.50 + (mathRandom s * 0.1);
          s1 = advance s;
          buildingDepthDeg = lotH * depthFactor;
          bMinX = l0 + sideSetback;
          bMaxX = l2 - sideSetback;
          bMaxY = (if isBottom then l3 - rearSetback
                   else (l1 + rearSetback) + buildingDepthDeg);
          bMinY = (if isBottom then (l3 - rearSetback) - buildingDepthDeg
                   else l1 + rearSetback)
      in if bMinX < bMaxX - (1 * Mx L) \<and> bMinY < bMaxY - (1 * My L) then
           (let buildingPoly = turf_bboxPolygon T (bMinX, bMinY, bMaxX, bMaxY) in
            case turf_intersect T [buildingPoly, lotShape] of
              Inr (Some clipped) \<Rightarrow>
                (let heightFactor = (mathRandom s1 * 0.2) + 0.9;
                     s2 = advance s1;
                     colorVariant = \<lfloor>mathRandom s2 * 3\<rfloor>;
                     s3 = advance s2;
                     clipped' = clipped\<lparr>properties :=
                       [''heightFactor'' \<mapsto> PNum heightFactor,
                        ''colorVariant'' \<mapsto> PNum (of_int colorVariant),
                        ''lotId'' \<mapsto> PNum (real lotId)]\<rparr>
                 in s3\<lparr>tempBuildings := tempBuildings s3 @ [clipped']\<rparr>)
            | Inr None \<Rightarrow> s1
            | Inl e \<Rightarrow> s1)
         else s1)"

text \<open>Tree placement (lines 447-460): the tree is dropped when it falls outside the lot.\<close>

definition placeTree ::
  "turf \<Rightarrow> Locals \<Rightarrow> bool \<Rightarrow> feature \<Rightarrow> BBox \<Rightarrow> nat \<Rightarrow> GenState \<Rightarrow> GenState" where
  "placeTree T L isBottom lotShape lotBbox lotId s =
     (case lotBbox of (l0, l1, l2, l3) \<Rightarrow>
      let treeSetbackDeg = 2.5 * My L;
          sideMarginDeg = 1.0 * Mx L;
          isLeft = mathRandom s > 0.5;
          s1 = advance s;
          treeX0 = (if isLeft then l0 + sideMarginDeg else l2 - sideMarginDeg);
          treeY0 = (if isBottom then l1 + treeSetbackDeg else l3 - treeSetbackDeg);
          treeX = max l0 (min l2 treeX0);
          treeY = max l1 (min l3 treeY0);
          idealTreePt = point (treeX, treeY)
      in if turf_booleanPointInPolygon T (treeX, treeY) lotShape
         then s1\<lparr>tempTrees := tempTrees s1 @
                [idealTreePt\<lparr>properties := (properties idealTreePt)
                   (''lotId'' \<mapsto> PNum (real lotId))\<rparr>]\<rparr>
         else s1)"

text \<open>The body of \<open>mergedLots.forEach\<close>.\<close>

definition emitLot :: "turf \<Rightarrow> Locals \<Rightarrow> bool \<Rightarrow> feature \<Rightarrow> GenState \<Rightarrow> GenState" where
  "emitLot T L isBottom lotShape0 s =
     (if turf_area T lotShape0 < 20 then s
      else
        let lotShape = lotShape0\<lparr>properties := (properties lotShape0)
                         (''lotId'' \<mapsto> PNum (real (globalLotIndex s)),
                          ''isBottomRow'' \<mapsto> PBool isBottom,
                          ''alignmentAngle'' \<mapsto> PNum (alignmentAngle L))\<rparr>;
            s1 = s\<lparr>tempLots := tempLots s @ [lotShape],
                    lotsGeneratedInBlock := lotsGeneratedInBlock s + 1\<rparr>;
            lotBbox = turf_bbox T lotShape;
            s2 = placeBuilding T L isBottom lotShape lotBbox (globalLotIndex s) s1;
            s3 = placeTree T L isBottom lotShape lotBbox (globalLotIndex s) s2
        in s3\<lparr>globalLotIndex := globalLotIndex s3 + 1\<rparr>)"

subsection \<open>processZone (lines 316-465)\<close>

fun mapThrow :: "('a \<Rightarrow> exn + 'b) \<Rightarrow> 'a list \<Rightarrow> exn + 'b list" where
  "mapThrow f [] = Inr []"
| "mapThrow f (x # xs) =
     (case f x of
        Inl e \<Rightarrow> Inl e
      | Inr y \<Rightarrow> (case mapThrow f xs of Inl e \<Rightarrow> Inl e | Inr ys \<Rightarrow> Inr (y # ys)))"

text \<open>The split of a multi-polygon into \<open>zones\<close>; \<open>polygon\<close> may throw.\<close>

definition zonesOf :: "turf \<Rightarrow> feature \<Rightarrow> exn + feature list" where
  "zonesOf T zonePoly =
     (case geometry zonePoly of
        MultiPolygon cs \<Rightarrow> mapThrow (turf_polygon T) cs
      | _ \<Rightarrow> Inr [zonePoly])"

text \<open>The slicing loop (lines 341-351).\<close>

definition sliceLots :: "turf \<Rightarrow> feature \<Rightarrow> BBox \<Rightarrow> int \<Rightarrow> feature list" where
  "sliceLots T zone zoneBox numLots =
     (case zoneBox of (z0, z1, z2, z3) \<Rightarrow>
      let sliceWidthDeg = (z2 - z0) / of_int numLots in
      concat (map (\<lambda>k.
        let sliceStart = z0 + (of_int k * sliceWidthDeg);
            sliceEnd = (if k = numLots - 1 then z2 + 0.000001 else sliceStart + sliceWidthDeg);
            slicePoly = turf_bboxPolygon T (sliceStart, z1, sliceEnd, z3)
        in case turf_intersect T [slicePoly, zone] of
             Inr (Some lotShape) \<Rightarrow> [lotShape]
           | Inr None \<Rightarrow> []
           | Inl e \<Rightarrow> []) [0 .. numLots - 1]))"

text \<open>The body of \<open>zones.forEach\<close>.\<close>

definition processOneZone ::
  "turf \<Rightarrow> SiteConfig \<Rightarrow> Locals \<Rightarrow> bool \<Rightarrow> feature \<Rightarrow> GenState \<Rightarrow> GenState" where
  "processOneZone T config L isBottom zone s =
     (let targetLotArea = lotWidth config * lotDepth config;
          area = turf_area T zone
      in if area < targetLotArea * 0.5 then s
         else
           case turf_bbox T zone of (z0, z1, z2, z3) \<Rightarrow>
           let zoneWidthM = turf_distance T Kilometers (z0, z1) (z2, z1) * 1000;
               numLots0 = \<lfloor>zoneWidthM / lotWidth config\<rfloor>;
               numLots = (if numLots0 < 1 then 1 else numLots0);
               candidateLots = sliceLots T zone (z0, z1, z2, z3) numLots
           in if length candidateLots > 0
              then fold (emitLot T L isBottom) (mergeLots T targetLotArea candidateLots) s
              else s)"

definition processZone ::
  "turf \<Rightarrow> SiteConfig \<Rightarrow> Locals \<Rightarrow> feature \<Rightarrow> bool \<Rightarrow> GenState \<Rightarrow> exn + GenState" where
  "processZone T config L zonePoly isBottom s =
     (case zonesOf T zonePoly of
        Inl e \<Rightarrow> Inl e
      | Inr zones \<Rightarrow> Inr (fold (processOneZone T config L isBottom) zones s))"

subsection \<open>A residential block (lines 281-488)\<close>

text \<open>Cutting a road band off the block (lines 293-311); a failure leaves the block.\<close>

definition cutRoad :: "turf \<Rightarrow> Locals \<Rightarrow> feature \<Rightarrow> feature \<Rightarrow> feature" where
  "cutRoad T L processedBlock roadBox =
     (case turf_intersect T [roadBox, workingEffectivePoly L] of
        Inr (Some roadInt) \<Rightarrow>
          (case turf_difference T [processedBlock, roadBox] of
             Inr (Some diff) \<Rightarrow> diff
           | Inr None \<Rightarrow> processedBlock
           | Inl e \<Rightarrow> processedBlock)
      | Inr None \<Rightarrow> processedBlock
      | Inl e \<Rightarrow> processedBlock)"

text \<open>The end of the \<open>try\<close> block (lines 475-486).\<close>

definition closeBlock :: "turf \<Rightarrow> feature \<Rightarrow> GenState \<Rightarrow> GenState" where
  "closeBlock T processedBlock s =
     (if lotsGeneratedInBlock s > 0
      then s\<lparr>tempSuperblocks := tempSuperblocks s @ [processedBlock]\<rparr>
      else if turf_area T processedBlock > 50 then addPark T processedBlock s
      else s)"

text \<open>
  \<open>cleanCoords\<close> is called outside the inner \<open>try\<close>: its exception leaves the
  block (\<open>Inl\<close>). An exception inside the \<open>try\<close> keeps what was pushed before it
  and runs the \<open>catch\<close>, which pushes \<open>finalBlock\<close>.
\<close>

definition residentialBlock ::
  "turf \<Rightarrow> SiteConfig \<Rightarrow> Locals \<Rightarrow> GridCell \<Rightarrow> GenState \<Rightarrow> exn + GenState" where
  "residentialBlock T config L block s =
     (let finalBlock = poly block in
      case turf_cleanCoords T finalBlock of
        Inl e \<Rightarrow> Inl e
      | Inr processedBlock0 \<Rightarrow>
         (case originalBbox block of (gridMinX, gridMinY, gridMaxX, gridMaxY) \<Rightarrow>
          let s0 = s\<lparr>lotsGeneratedInBlock := 0\<rparr>;
              gridMidY = gridMinY + ((gridMaxY - gridMinY) / 2);
              bottomRoadBox = turf_bboxPolygon T
                                (gridMinX, gridMinY - roadWidthDegY L, gridMaxX, gridMinY);
              processedBlock1 = cutRoad T L processedBlock0 bottomRoadBox;
              topRoadBox = turf_bboxPolygon T
                             (gridMinX, gridMaxY, gridMaxX, gridMaxY + roadWidthDegY L);
              processedBlock = cutRoad T L processedBlock1 topRoadBox;
              bottomBand = turf_bboxPolygon T (gridMinX, gridMinY, gridMaxX, gridMidY);
              topBand = turf_bboxPolygon T (gridMinX, gridMidY, gridMaxX, gridMaxY);
              catch = (\<lambda>st. st\<lparr>tempSuperblocks := tempSuperblocks st @ [finalBlock]\<rparr>)
          in case turf_intersect T [processedBlock, bottomBand] of
               Inl e \<Rightarrow> Inr (catch s0)
             | Inr bottomZone \<Rightarrow>
                (case turf_intersect T [processedBlock, topBand] of
                   Inl e \<Rightarrow> Inr (catch s0)
                 | Inr topZone \<Rightarrow>
                    (case (case bottomZone of
                             None \<Rightarrow> Inr s0
                           | Some z \<Rightarrow> processZone T config L z True s0) of
                       Inl e \<Rightarrow> Inr (catch s0)
                     | Inr s1 \<Rightarrow>
                        (case (case topZone of
                                 None \<Rightarrow> Inr s1
                               | Some z \<Rightarrow> processZone T config L z False s1) of
                           Inl e \<Rightarrow> Inr (catch s1)
                         | Inr s2 \<Rightarrow> Inr (closeBlock T processedBlock s2))))))"

fun foldThrow :: "('a \<Rightarrow> 's \<Rightarrow> exn + 's) \<Rightarrow> 'a list \<Rightarrow> 's \<Rightarrow> exn + 's" where
  "foldThrow f [] s = Inr s"
| "foldThrow f (x # xs) s = (case f x s of Inl e \<Rightarrow> Inl e | Inr s' \<Rightarrow> foldThrow f xs s')"

subsection \<open>Park merging (lines 490-535)\<close>

text \<open>\<open>parkMap.get\<close>: the last block stored under the key \<open>col,row\<close>.\<close>

definition parkMapGet :: "GridCell list \<Rightarrow> nat \<times> nat \<Rightarrow> GridCell option" where
  "parkMapGet parkBlocks key = find (\<lambda>p. (col p, row p) = key) (rev parkBlocks)"

definition gapFeatures :: "turf \<Rightarrow> Locals \<Rightarrow> GridCell list \<Rightarrow> GridCell \<Rightarrow> feature list" where
  "gapFeatures T L parkBlocks p =
     (let epsilon = 0.000001 in
      case originalBbox p of (p0, p1, p2, p3) \<Rightarrow>
        (case parkMapGet parkBlocks (col p + 1, row p) of
           None \<Rightarrow> []
         | Some rightCell \<Rightarrow>
            (case originalBbox rightCell of (r0, r1, r2, r3) \<Rightarrow>
             let gapPoly = turf_bboxPolygon T (p2 - epsilon, max p1 r1, r0 + epsilon, min p3 r3)
             in (case turf_intersect T [gapPoly, workingEffectivePoly L] of
                   Inr (Some clippedGap) \<Rightarrow> [clippedGap]
                 | Inr None \<Rightarrow> []
                 | Inl e \<Rightarrow> [])))
        @
        (case parkMapGet parkBlocks (col p, row p + 1) of
           None \<Rightarrow> []
         | Some topCell \<Rightarrow>
            (case originalBbox topCell of (t0, t1, t2, t3) \<Rightarrow>
             let gapPoly = turf_bboxPolygon T (max p0 t0, p3 - epsilon, min p2 t2, t1 + epsilon)
             in (case turf_intersect T [gapPoly, workingEffectivePoly L] of
                   Inr (Some clippedGap) \<Rightarrow> [clippedGap]
                 | Inr None \<Rightarrow> []
                 | Inl e \<Rightarrow> []))))"

definition mergeParks :: "turf \<Rightarrow> Locals \<Rightarrow> GridCell list \<Rightarrow> GenState \<Rightarrow> GenState" where
  "mergeParks T L parkBlocks s =
     (if length parkBlocks > 0 then
        (let featuresToMerge = map poly parkBlocks @ concat (map (gapFeatures T L parkBlocks) parkBlocks)
         in case turf_dissolve T featuresToMerge of
              Inr mergedParks \<Rightarrow> fold (\<lambda>feature. addPark T (turf_rewind T feature)) mergedParks s
            | Inl e \<Rightarrow> fold (\<lambda>b. addPark T (poly b)) parkBlocks s)
      else s)"

subsection \<open>Blocks, lots and parks together (lines 128-535)\<close>

definition initState :: "(nat \<Rightarrow> real) \<Rightarrow> GenState" where
  "initState rnd =
     \<lparr>tempLots = [], tempBuildings = [], tempParks = [], tempTrees = [], tempSuperblocks = [],
      globalLotIndex = 0, lotsGeneratedInBlock = 0, rng = rnd\<rparr>"

definition layout ::
  "turf \<Rightarrow> SiteConfig \<Rightarrow> UserConstraint list \<Rightarrow> Locals \<Rightarrow> (nat \<Rightarrow> real) \<Rightarrow>
   exn + (GenState \<times> Position list)" where
  "layout T config constraints L rnd =
     (case buildGrid T L of (gridInfo0, intersections) \<Rightarrow>
      let gridInfo = classify T config (workingConstraints T L constraints) gridInfo0;
          parkBlocks = filter (\<lambda>b. btype b = Park) gridInfo;
          residentialBlocks = filter (\<lambda>b. btype b \<noteq> Park) gridInfo
      in case foldThrow (residentialBlock T config L) residentialBlocks (initState rnd) of
           Inl e \<Rightarrow> Inl e
         | Inr s \<Rightarrow> Inr (mergeParks T L parkBlocks s, intersections))"

subsection \<open>Zebra crossings (lines 537-592)\<close>

fun someThrow :: "('a \<Rightarrow> exn + bool) \<Rightarrow> 'a list \<Rightarrow> exn + bool" where
  "someThrow f [] = Inr False"
| "someThrow f (x # xs) =
     (case f x of
        Inl e \<Rightarrow> Inl e
      | Inr b \<Rightarrow> if b then Inr True else someThrow f xs)"

definition intersectsPark :: "turf \<Rightarrow> feature list \<Rightarrow> Position list \<Rightarrow> exn + bool" where
  "intersectsPark T parkList boxCoords =
     someThrow (\<lambda>park. case turf_polygon T [boxCoords] of
                          Inl e \<Rightarrow> Inl e
                        | Inr b \<Rightarrow> Inr (turf_booleanIntersects T b park)) parkList"

text \<open>
  The two \<open>while\<close> loops of \<open>generateZebraStripes\<close> differ in the box they draw and
  in their step. With a step that is not positive the loop never ends: the result
  is \<open>None\<close>.
\<close>

partial_function (option) stripeLoop ::
  "turf \<Rightarrow> feature list \<Rightarrow> (real \<Rightarrow> Position list) \<Rightarrow> real \<Rightarrow> real \<Rightarrow> real \<Rightarrow>
   Position list list list \<Rightarrow> (exn + Position list list list) option" where
  "stripeLoop T parkList boxAt step stop currPos stripes =
     (if currPos < stop then
        (case intersectsPark T parkList (boxAt currPos) of
           Inl e \<Rightarrow> Some (Inl e)
         | Inr hit \<Rightarrow>
             stripeLoop T parkList boxAt step stop (currPos + step)
               (if \<not> hit then stripes @ [[boxAt currPos]] else stripes))
      else Some (Inr stripes))"

definition generateZebraStripes ::
  "turf \<Rightarrow> SiteConfig \<Rightarrow> Locals \<Rightarrow> feature list \<Rightarrow> real \<Rightarrow> real \<Rightarrow> bool \<Rightarrow>
   (exn + feature option) option" where
  "generateZebraStripes T config L parkList cx cy isVertical =
     (let roadW = roadWidth config;
          pathW = 4.0;
          stripeW_M = 0.6;
          stripeW_DegX = stripeW_M * Mx L; stripeW_DegY = stripeW_M * My L;
          pathW_DegX = pathW * Mx L; pathW_DegY = pathW * My L;
          roadW_DegX = roadW * Mx L; roadW_DegY = roadW * My L;
          gapW_M = 0.6;
          gap_DegX = gapW_M * Mx L; gap_DegY = gapW_M * My L;
          loop =
            (if isVertical then
               (let totalHeight = roadW_DegY * 0.8;
                    startY = cy - (totalHeight / 2);
                    stripeH = stripeW_DegY; gapH = gap_DegY; stripeLen = pathW_DegX
                in stripeLoop T parkList
                     (\<lambda>currY. [(cx - stripeLen / 2, currY), (cx + stripeLen / 2, currY),
                               (cx + stripeLen / 2, currY + stripeH),
                               (cx - stripeLen / 2, currY + stripeH),
                               (cx - stripeLen / 2, currY)])
                     (stripeH + gapH) (startY + totalHeight) startY [])
             else
               (let totalWidth = roadW_DegX * 0.8;
                    startX = cx - (totalWidth / 2);
                    stripeW = stripeW_DegX; gapW = gap_DegX; stripeLen = pathW_DegY
                in stripeLoop T parkList
                     (\<lambda>currX. [(currX, cy - stripeLen / 2), (currX + stripeW, cy - stripeLen / 2),
                               (currX + stripeW, cy + stripeLen / 2),
                               (currX, cy + stripeLen / 2),
                               (currX, cy - stripeLen / 2)])
                     (stripeW + gapW) (startX + totalWidth) startX []))
      in case loop of
           None \<Rightarrow> None
         | Some (Inl e) \<Rightarrow> Some (Inl e)
         | Some (Inr stripes) \<Rightarrow>
             Some (Inr (if length stripes > 0 then Some (multiPolygon stripes) else None)))"

fun foldRun :: "('a \<Rightarrow> 's \<Rightarrow> (exn + 's) option) \<Rightarrow> 'a list \<Rightarrow> 's \<Rightarrow> (exn + 's) option" where
  "foldRun f [] s = Some (Inr s)"
| "foldRun f (x # xs) s =
     (case f x s of
        None \<Rightarrow> None
      | Some (Inl e) \<Rightarrow> Some (Inl e)
      | Some (Inr s') \<Rightarrow> foldRun f xs s')"

text \<open>The body of \<open>intersections.forEach\<close>, on \<open>tempMarkings\<close>.\<close>

definition markIntersection ::
  "turf \<Rightarrow> SiteConfig \<Rightarrow> Locals \<Rightarrow> feature list \<Rightarrow> feature list \<Rightarrow> Position \<Rightarrow>
   feature list \<Rightarrow> (exn + feature list) option" where
  "markIntersection T config L parkList parkBoundaries ipt tempMarkings =
     (case ipt of (ix, iy) \<Rightarrow>
      if turf_booleanPointInPolygon T (ix, iy) (workingSitePoly L) then
        (if list_ex (\<lambda>p. turf_booleanPointInPolygon T (ix, iy) p) parkList
         then Some (Inr tempMarkings)
         else
           let isNearPark =
                 list_ex (\<lambda>parkLine.
                            turf_distance T Meters (ix, iy)
                              (turf_nearestPointOnLine T parkLine (ix, iy))
                            < roadWidth config * 2) parkBoundaries
           in if isNearPark then
                (let offsets = [(0, roadWidthDegY L * 0.65, False),
                                (0, - roadWidthDegY L * 0.65, False),
                                (roadWidthDegX L * 0.65, 0, True),
                                (- roadWidthDegX L * 0.65, 0, True)]
                 in foldRun (\<lambda>off marks.
                      case off of (offx, offy, vert) \<Rightarrow>
                        (case generateZebraStripes T config L parkList (ix + offx) (iy + offy) vert of
                           None \<Rightarrow> None
                         | Some (Inl e) \<Rightarrow> Some (Inl e)
                         | Some (Inr None) \<Rightarrow> Some (Inr marks)
                         | Some (Inr (Some zebra)) \<Rightarrow>
                             if turf_booleanPointInPolygon T (ix + offx, iy + offy) (workingSitePoly L)
                             then Some (Inr (marks @ [zebra]))
                             else Some (Inr marks)))
                      offsets tempMarkings)
              else Some (Inr tempMarkings))
      else Some (Inr tempMarkings))"

definition roadMarkingsOf ::
  "turf \<Rightarrow> SiteConfig \<Rightarrow> Locals \<Rightarrow> feature list \<Rightarrow> Position list \<Rightarrow> (exn + feature list) option" where
  "roadMarkingsOf T config L parkList intersections =
     (let parkBoundaries = List.map_filter (safePolygonToLine T) parkList
      in foldRun (markIntersection T config L parkList parkBoundaries) intersections [])"

subsection \<open>Entrance candidates and the gate (lines 594-690)\<close>

definition rotateBack :: "turf \<Rightarrow> Locals \<Rightarrow> feature list \<Rightarrow> feature list" where
  "rotateBack T L features = map (\<lambda>f. turf_transformRotate T f (alignmentAngle L) (center L)) features"

text \<open>Line 609: \<open>features[0]\<close> of an empty collection is \<open>undefined\<close>.\<close>

definition boundaryLineOf :: "geojson \<Rightarrow> feature option" where
  "boundaryLineOf boundaryResult =
     (case boundaryResult of
        FeatureCollection fs \<Rightarrow> (case fs of [] \<Rightarrow> None | f # rest \<Rightarrow> Some f)
      | Feature f \<Rightarrow> Some f)"

record Candidate =
  midpoint :: Position
  roadBearing :: real

definition roadProjectionLines :: "turf \<Rightarrow> Locals \<Rightarrow> (feature \<times> real) list" where
  "roadProjectionLines T L =
     (case bbox L of (b0, b1, b2, b3) \<Rightarrow>
      map (\<lambda>i. let x = startX L + (of_int i * xStep L);
                   roadCenterX = x + targetBlockWidthDeg L + (roadWidthDegX L / 2);
                   lineLocal = lineString [(roadCenterX, b1 - 0.05), (roadCenterX, b3 + 0.05)];
                   rotatedLine = turf_transformRotate T lineLocal (alignmentAngle L) (center L)
               in (rotatedLine, alignmentAngle L))
          [- bufferCols .. numCols L + bufferCols]
      @
      map (\<lambda>j. let y = startY L + (of_int j * yStep L);
                   roadCenterY = y + blockDepthDeg L + (roadWidthDegY L / 2);
                   lineLocal = lineString [(b0 - 0.05, roadCenterY), (b2 + 0.05, roadCenterY)];
                   rotatedLine = turf_transformRotate T lineLocal (alignmentAngle L) (center L)
               in (rotatedLine, alignmentAngle L + 90))
          [- bufferRows .. numRows L + bufferRows])"

text \<open>
  The body of \<open>roadProjectionLines.forEach\<close>: the candidates one line adds. With
  \<open>boundaryLine\<close> undefined, \<open>lineIntersect\<close> reads a property of \<open>undefined\<close>.
\<close>

definition candidatesOfLine ::
  "turf \<Rightarrow> feature \<Rightarrow> feature option \<Rightarrow> feature list \<Rightarrow> feature list \<Rightarrow> feature \<times> real \<Rightarrow>
   exn + Candidate list" where
  "candidatesOfLine T originalSitePoly boundaryLine finalSuperblocks finalParks item =
     (case boundaryLine of
        None \<Rightarrow> Inl TypeError
      | Some bl \<Rightarrow>
         (case turf_lineIntersect T (fst item) bl of
            Inl e \<Rightarrow> Inl e
          | Inr intersects \<Rightarrow>
              Inr (concat (map (\<lambda>pt.
                let bearing = snd item;
                    p1 = turf_destination T pt 0.002 bearing Kilometers;
                    p2 = turf_destination T pt 0.002 (bearing + 180) Kilometers;
                    insidePoint =
                      (if turf_booleanPointInPolygon T p1 originalSitePoly then Some p1
                       else if turf_booleanPointInPolygon T p2 originalSitePoly then Some p2
                       else None)
                in case insidePoint of
                     None \<Rightarrow> []
                   | Some ip \<Rightarrow>
                      (let isBlockedBySuperblock =
                             list_ex (\<lambda>block. turf_booleanPointInPolygon T ip block) finalSuperblocks;
                           isBlockedByPark =
                             list_ex (\<lambda>park. turf_booleanPointInPolygon T ip park) finalParks
                       in if \<not> isBlockedBySuperblock \<and> \<not> isBlockedByPark
                          then [\<lparr>midpoint = pt, roadBearing = snd item\<rparr>]
                          else [])) intersects))))"

text \<open>Lines 646-650: a candidate within 15 m of one already kept is dropped.\<close>

definition dedupe :: "turf \<Rightarrow> Candidate list \<Rightarrow> Candidate list" where
  "dedupe T uniqueCandidates =
     fold (\<lambda>cand uniqueFiltered.
             if list_ex (\<lambda>u. turf_distance T Meters (midpoint cand) (midpoint u) < 15) uniqueFiltered
             then uniqueFiltered else uniqueFiltered @ [cand])
          uniqueCandidates []"

text \<open>Lines 651-655: the stable sort by the bearing from the centre.\<close>

definition sortByAngle :: "turf \<Rightarrow> Position \<Rightarrow> Candidate list \<Rightarrow> Candidate list" where
  "sortByAngle T c uniqueFiltered = sort_key (\<lambda>a. turf_bearing T c (midpoint a)) uniqueFiltered"

text \<open>The remainder operator \<open>%\<close> of JavaScript on finite numbers with a nonzero
  divisor: the quotient is truncated towards zero.\<close>

definition jsRem :: "real \<Rightarrow> real \<Rightarrow> real" where
  "jsRem a b = a - b * of_int (if a / b < 0 then \<lceil>a / b\<rceil> else \<lfloor>a / b\<rfloor>)"

text \<open>\<open>xs[i]\<close> with a number \<open>i\<close>: \<open>undefined\<close> unless \<open>i\<close> is an index of \<open>xs\<close>.\<close>

definition arrayGet :: "'a list \<Rightarrow> real \<Rightarrow> 'a option" where
  "arrayGet xs i =
     (if 0 \<le> i \<and> of_int \<lfloor>i\<rfloor> = i \<and> nat \<lfloor>i\<rfloor> < length xs then Some (xs ! nat \<lfloor>i\<rfloor>) else None)"

text \<open>Lines 657-687, for a non-empty \<open>uniqueFiltered\<close>.\<close>

definition buildGate :: "turf \<Rightarrow> SiteConfig \<Rightarrow> Candidate list \<Rightarrow> exn + AccessControl" where
  "buildGate T config uniqueFiltered =
     (let safeIndex = jsRem (entryIndex config) (real (length uniqueFiltered)) in
      case arrayGet uniqueFiltered safeIndex of
        None \<Rightarrow> Inl TypeError
      | Some selected \<Rightarrow>
         (case midpoint selected of (ptx, pty) \<Rightarrow>
          let pt = (ptx, pty);
              rotation = roadBearing selected;
              toDeg = (\<lambda>m. m / 111320);
              islandWidth = toDeg 2.2;
              islandLength = toDeg 8;
              houseWidth = toDeg 1.5;
              houseLength = toDeg 3;
              island = turf_transformRotate T
                         (turf_bboxPolygon T (ptx - islandWidth / 2, pty - islandLength / 2,
                                              ptx + islandWidth / 2, pty + islandLength / 2))
                         rotation pt;
              guardHouse = turf_transformRotate T
                             (turf_bboxPolygon T (ptx - houseWidth / 2, pty - houseLength / 4,
                                                  ptx + houseWidth / 2, pty + houseLength / 4))
                             rotation pt;
              centerPt = pt;
              leftStart = turf_destination T centerPt (islandWidth / 2000) (rotation - 90) Kilometers;
              leftEnd = turf_destination T centerPt ((roadWidth config / 2) / 1000) (rotation - 90) Kilometers;
              leftBarrier = lineString [leftStart, leftEnd];
              rightStart = turf_destination T centerPt (islandWidth / 2000) (rotation + 90) Kilometers;
              rightEnd = turf_destination T centerPt ((roadWidth config / 2) / 1000) (rotation + 90) Kilometers;
              rightBarrier = lineString [rightStart, rightEnd]
          in Inr \<lparr>actype = GATE, island = island, guardHouse = Some guardHouse,
                   barriers = Some [leftBarrier, rightBarrier], roundaboutExt = None,
                   entryPoint = \<lparr>lat = pty, lng = ptx\<rparr>, rotation = rotation\<rparr>))"

text \<open>Lines 611-690: \<open>accessControlData\<close> and the final \<open>uniqueCandidates\<close>.\<close>

definition findAccess ::
  "turf \<Rightarrow> SiteConfig \<Rightarrow> Locals \<Rightarrow> feature \<Rightarrow> feature option \<Rightarrow> feature list \<Rightarrow> feature list \<Rightarrow>
   exn + (AccessControl option \<times> Candidate list)" where
  "findAccess T config L originalSitePoly boundaryLine finalSuperblocks finalParks =
     (if length finalSuperblocks > 0 then
        (case mapThrow (candidatesOfLine T originalSitePoly boundaryLine finalSuperblocks finalParks)
                (roadProjectionLines T L) of
           Inl e \<Rightarrow> Inl e
         | Inr found \<Rightarrow>
            (let uniqueCandidates = concat found;
                 uniqueFiltered = sortByAngle T (center L) (dedupe T uniqueCandidates)
             in if length uniqueFiltered > 0 then
                  (case buildGate T config uniqueFiltered of
                     Inl e \<Rightarrow> Inl e
                   | Inr accessControlData \<Rightarrow> Inr (Some accessControlData, uniqueFiltered))
                else Inr (None, uniqueFiltered)))
      else Inr (None, []))"

subsection \<open>The perimeter wall (lines 692-708)\<close>

definition cutoutRadius :: "SiteConfig \<Rightarrow> real" where
  "cutoutRadius config = (roadWidth config / 1000) * 0.6"

text \<open>Lines 693-696: the 16-step circle around the entry point.\<close>

definition cutoutMask :: "turf \<Rightarrow> SiteConfig \<Rightarrow> AccessControl \<Rightarrow> feature" where
  "cutoutMask T config ac =
     (let entryPt = (lng (entryPoint ac), lat (entryPoint ac))
      in turf_circle T entryPt (cutoutRadius config) Kilometers 16)"

text \<open>Lines 697-707: the boundary line split by the mask; a piece stays when its
  midpoint is outside the mask.\<close>

definition wallsAround :: "turf \<Rightarrow> feature option \<Rightarrow> feature \<Rightarrow> exn + feature option list" where
  "wallsAround T boundaryLine maskPoly =
     (case turf_polygonToLine T maskPoly of
        Inl e \<Rightarrow> Inl e
      | Inr maskLine \<Rightarrow>
         (case turf_lineSplit T boundaryLine maskLine of
            Inl e \<Rightarrow> Inl e
          | Inr split \<Rightarrow>
             (case split of
                None \<Rightarrow> Inr [boundaryLine]
              | Some segs \<Rightarrow>
                 if length segs > 0 then
                   Inr (concat (map (\<lambda>seg.
                          let len = turf_length T seg in
                          if len > 0 then
                            (let mid = turf_along T seg (len / 2) in
                             if \<not> turf_booleanPointInPolygon T mid maskPoly
                             then [Some seg] else [])
                          else []) segs))
                 else Inr [boundaryLine])))"

definition perimeter ::
  "turf \<Rightarrow> SiteConfig \<Rightarrow> feature option \<Rightarrow> AccessControl option \<Rightarrow> exn + feature option list" where
  "perimeter T config boundaryLine accessControlData =
     (case accessControlData of
        None \<Rightarrow> Inr [boundaryLine]
      | Some ac \<Rightarrow> wallsAround T boundaryLine (cutoutMask T config ac))"

subsection \<open>generateBuilding (lines 42-721)\<close>

definition emptyStats :: ProjectStats where
  "emptyStats =
     \<lparr>siteArea = 0, netSellableArea = 0, roadArea = 0, parkArea = 0, totalLots = 0,
      efficiency = 0, possibleEntrances = 0\<rparr>"

definition emptyGeometry :: GeneratedGeometry where
  "emptyGeometry =
     \<lparr>siteBoundary = None, superblocks = [], roads = [], lots = [], buildings = [], parks = [],
      trees = [], perimeterWalls = [], accessControl = None, roadMarkings = [], stopSigns = [],
      entranceCandidates = [], isValid = False, error = None\<rparr>"

text \<open>The message of line 106, in the UTF-8 bytes of the source file.\<close>

definition selfIntersectionError :: string where
  "selfIntersectionError =
     ''El pol'' @ [CHR 0xC3, CHR 0xAD] @ ''gono se intersecta a s'' @ [CHR 0xC3, CHR 0xAD] @ '' mismo''"

text \<open>Lines 79-87: the ring of \<open>[lng, lat]\<close> pairs, closed when it is not.\<close>

definition toRing :: "LatLng list \<Rightarrow> Position list" where
  "toRing points =
     (let coordinates = map (\<lambda>p. (lng p, lat p)) points in
      if length coordinates > 0 \<and>
         (fst (hd coordinates) \<noteq> fst (last coordinates) \<or>
          snd (hd coordinates) \<noteq> snd (last coordinates))
      then coordinates @ [hd coordinates]
      else coordinates)"

text \<open>\<open>geometry.coordinates.length\<close>.\<close>

definition coordinatesLength :: "geometry \<Rightarrow> nat" where
  "coordinatesLength g =
     (case g of
        Point c \<Rightarrow> 2
      | LineString cs \<Rightarrow> length cs
      | MultiLineString ls \<Rightarrow> length ls
      | Polygon rs \<Rightarrow> length rs
      | MultiPolygon ps \<Rightarrow> length ps)"

text \<open>
  Lines 79-97: the site polygon, cleaned and rewound; \<open>Inr None\<close> when the cleaned
  polygon has no coordinates.
\<close>

definition siteOf :: "turf \<Rightarrow> LatLng list \<Rightarrow> exn + feature option" where
  "siteOf T points =
     (case turf_polygon T [toRing points] of
        Inl e \<Rightarrow> Inl e
      | Inr sitePoly0 \<Rightarrow>
         (case turf_cleanCoords T sitePoly0 of
            Inl e \<Rightarrow> Inl e
          | Inr cleanResult \<Rightarrow>
              if coordinatesLength (geometry cleanResult) = 0 then Inr None
              else Inr (Some (turf_rewind T cleanResult))))"

text \<open>
  Lines 537-717: from the lots and parks of the working frame to the result. It
  throws (\<open>Some (Inl e)\<close>) when an unguarded library call does, and never ends
  (\<open>None\<close>) when a loop of \<open>generateZebraStripes\<close> does not.
\<close>

definition finish ::
  "turf \<Rightarrow> SiteConfig \<Rightarrow> Locals \<Rightarrow> feature \<Rightarrow> real \<Rightarrow> GenState \<Rightarrow> Position list \<Rightarrow>
   (exn + GeneratedGeometry \<times> ProjectStats) option" where
  "finish T config L originalSitePoly siteArea0 s intersections =
     (case roadMarkingsOf T config L (tempParks s) intersections of
        None \<Rightarrow> None
      | Some (Inl e) \<Rightarrow> Some (Inl e)
      | Some (Inr tempMarkings) \<Rightarrow>
     let finalSuperblocks = rotateBack T L (tempSuperblocks s);
         finalLots = rotateBack T L (tempLots s);
         finalBuildings = rotateBack T L (tempBuildings s);
         finalParks = rotateBack T L (tempParks s);
         finalTrees = rotateBack T L (tempTrees s);
         finalMarkings = rotateBack T L tempMarkings;
         finalStopSigns = rotateBack T L [];
         finalRoads = rotateBack T L []
     in
     (case turf_polygonToLine T originalSitePoly of
        Inl e \<Rightarrow> Some (Inl e)
      | Inr boundaryResult \<Rightarrow>
     let boundaryLine = boundaryLineOf boundaryResult in
     (case findAccess T config L originalSitePoly boundaryLine finalSuperblocks finalParks of
        Inl e \<Rightarrow> Some (Inl e)
      | Inr (accessControlData, uniqueCandidates) \<Rightarrow>
     (case perimeter T config boundaryLine accessControlData of
        Inl e \<Rightarrow> Some (Inl e)
      | Inr walls \<Rightarrow>
     let netSellable = sumAreas T finalLots;
         parkTotal = sumAreas T finalParks;
         roadTotal = siteArea0 - netSellable - parkTotal
     in Some (Inr
          (\<lparr>siteBoundary = Some originalSitePoly, superblocks = finalSuperblocks,
            roads = finalRoads, lots = finalLots, buildings = finalBuildings,
            parks = finalParks, trees = finalTrees, perimeterWalls = walls,
            accessControl = accessControlData, roadMarkings = finalMarkings,
            stopSigns = finalStopSigns,
            entranceCandidates =
              map (\<lambda>c. \<lparr>lat = snd (midpoint c), lng = fst (midpoint c)\<rparr>) uniqueCandidates,
            isValid = True, error = None\<rparr>,
           \<lparr>siteArea = siteArea0, netSellableArea = netSellable, roadArea = roadTotal,
            parkArea = parkTotal, totalLots = real (length finalLots),
            efficiency = netSellable / siteArea0,
            possibleEntrances = real (length uniqueCandidates)\<rparr>))))))"

text \<open>
  The body of the outer \<open>try\<close> (lines 79-717): \<open>Some (Inr r)\<close> when it returns
  \<open>r\<close>, \<open>Some (Inl e)\<close> when it throws \<open>e\<close>, \<open>None\<close> when it never ends.
\<close>

definition tryBody ::
  "turf \<Rightarrow> (nat \<Rightarrow> real) \<Rightarrow> LatLng list \<Rightarrow> SiteConfig \<Rightarrow> UserConstraint list \<Rightarrow>
   (exn + GeneratedGeometry \<times> ProjectStats) option" where
  "tryBody T rnd points config constraints =
     (case siteOf T points of
        Inl e \<Rightarrow> Some (Inl e)
      | Inr None \<Rightarrow> Some (Inr (emptyGeometry\<lparr>error := Some ''Invalid Geometry''\<rparr>, emptyStats))
      | Inr (Some originalSitePoly) \<Rightarrow>
         let kinks = turf_kinks T originalSitePoly in
         if length kinks > 0
         then Some (Inr (emptyGeometry\<lparr>siteBoundary := Some originalSitePoly, isValid := False,
                                        error := Some selfIntersectionError\<rparr>, emptyStats))
         else
           let siteArea = turf_area T originalSitePoly in
           if siteArea < 100 then Some (Inl AreaTooSmall)
           else
             let L = computeLocals T config originalSitePoly in
             (case layout T config constraints L rnd of
                Inl e \<Rightarrow> Some (Inl e)
              | Inr (s, intersections) \<Rightarrow>
                  finish T config L originalSitePoly siteArea s intersections))"

text \<open>
  The exported function. \<open>rnd\<close> is the sequence of numbers that \<open>Math.random\<close>
  returns during the call. The result is \<open>None\<close> when the call never returns.
\<close>

definition generateBuilding ::
  "turf \<Rightarrow> (nat \<Rightarrow> real) \<Rightarrow> LatLng list \<Rightarrow> SiteConfig \<Rightarrow> UserConstraint list \<Rightarrow>
   (GeneratedGeometry \<times> ProjectStats) option" where
  "generateBuilding T rnd points config constraints =
     (if length points < 3 then Some (emptyGeometry, emptyStats)
      else
        case tryBody T rnd points config constraints of
          None \<Rightarrow> None
        | Some (Inl e) \<Rightarrow> Some (emptyGeometry\<lparr>error := Some ''Calculation Failed''\<rparr>, emptyStats)
        | Some (Inr result) \<Rightarrow> Some result)"

subsection \<open>A planar instance of the library on boxes\<close>

text \<open>
  To run the model, the library is instantiated on axis-parallel boxes near the
  equator, where a degree is 111320 m in both directions. Measures and boolean
  operations act on bounding boxes, lengths are measured along the axes, a circle
  is drawn as its bounding box, and rotations and bearings are right angles.
\<close>

definition coordsOf :: "geometry \<Rightarrow> Position list" where
  "coordsOf g =
     (case g of
        Point c \<Rightarrow> [c]
      | LineString cs \<Rightarrow> cs
      | MultiLineString ls \<Rightarrow> concat ls
      | Polygon rs \<Rightarrow> concat rs
      | MultiPolygon ps \<Rightarrow> concat (concat ps))"

definition boxOf :: "feature \<Rightarrow> BBox" where
  "boxOf f =
     (case coordsOf (geometry f) of
        [] \<Rightarrow> (0, 0, 0, 0)
      | c # cs \<Rightarrow> (fold min (map fst cs) (fst c), fold min (map snd cs) (snd c),
                   fold max (map fst cs) (fst c), fold max (map snd cs) (snd c)))"

definition boxPolygon :: "BBox \<Rightarrow> feature" where
  "boxPolygon b =
     (case b of (x0, y0, x1, y1) \<Rightarrow>
      \<lparr>geometry = Polygon [[(x0, y0), (x1, y0), (x1, y1), (x0, y1), (x0, y0)]],
       properties = Map.empty\<rparr>)"

definition boxMeet :: "feature list \<Rightarrow> feature option" where
  "boxMeet fs =
     (case fs of
        [f, g] \<Rightarrow>
          (case boxOf f of (a0, b0, a1, b1) \<Rightarrow>
           case boxOf g of (c0, d0, c1, d1) \<Rightarrow>
             if max a0 c0 < min a1 c1 \<and> max b0 d0 < min b1 d1
             then Some (boxPolygon (max a0 c0, max b0 d0, min a1 c1, min b1 d1))
             else None)
      | _ \<Rightarrow> None)"

definition boxJoin :: "feature list \<Rightarrow> exn + feature option" where
  "boxJoin fs =
     (case fs of
        [f, g] \<Rightarrow>
          (case boxOf f of (a0, b0, a1, b1) \<Rightarrow>
           case boxOf g of (c0, d0, c1, d1) \<Rightarrow>
             Inr (Some (boxPolygon (min a0 c0, min b0 d0, max a1 c1, max b1 d1))))
      | _ \<Rightarrow> Inl LibraryError)"

definition boxMinus :: "feature list \<Rightarrow> exn + feature option" where
  "boxMinus fs =
     (case fs of
        [f, g] \<Rightarrow> if boxMeet [f, g] = None then Inr (Some f) else Inl LibraryError
      | _ \<Rightarrow> Inl LibraryError)"

definition boxInside :: "Position \<Rightarrow> feature \<Rightarrow> bool" where
  "boxInside p f =
     (case boxOf f of (x0, y0, x1, y1) \<Rightarrow>
        x0 \<le> fst p \<and> fst p \<le> x1 \<and> y0 \<le> snd p \<and> snd p \<le> y1)"

definition boxDistance :: "units \<Rightarrow> Position \<Rightarrow> Position \<Rightarrow> real" where
  "boxDistance u a b =
     (let km = (\<bar>fst a - fst b\<bar> + \<bar>snd a - snd b\<bar>) * 111.32
      in case u of Kilometers \<Rightarrow> km | Meters \<Rightarrow> km * 1000)"

definition boxBearing :: "Position \<Rightarrow> Position \<Rightarrow> real" where
  "boxBearing a b =
     (let dx = fst b - fst a; dy = snd b - snd a in
      if \<bar>dx\<bar> > \<bar>dy\<bar> then (if dx > 0 then 90 else - 90)
      else (if dy \<ge> 0 then 0 else 180))"

definition boxDestination :: "Position \<Rightarrow> real \<Rightarrow> real \<Rightarrow> units \<Rightarrow> Position" where
  "boxDestination p d b u =
     (let deg = (case u of Kilometers \<Rightarrow> d / 111.32 | Meters \<Rightarrow> d / 111320) in
      if b = 0 then (fst p, snd p + deg)
      else if b = 90 then (fst p + deg, snd p)
      else if b = 180 then (fst p, snd p - deg)
      else if b = 270 \<or> b = - 90 then (fst p - deg, snd p)
      else p)"

definition quarterTurn :: "real \<Rightarrow> Position \<Rightarrow> Position \<Rightarrow> Position" where
  "quarterTurn angle pivot c =
     (let dx = fst c - fst pivot; dy = snd c - snd pivot in
      if angle = 90 then (fst pivot + dy, snd pivot - dx)
      else if angle = - 90 then (fst pivot - dy, snd pivot + dx)
      else if angle = 180 \<or> angle = - 180 then (fst pivot - dx, snd pivot - dy)
      else c)"

definition boxRotate :: "feature \<Rightarrow> real \<Rightarrow> Position \<Rightarrow> feature" where
  "boxRotate f angle pivot =
     f\<lparr>geometry :=
         (case geometry f of
            Point c \<Rightarrow> Point (quarterTurn angle pivot c)
          | LineString cs \<Rightarrow> LineString (map (quarterTurn angle pivot) cs)
          | MultiLineString ls \<Rightarrow> MultiLineString (map (map (quarterTurn angle pivot)) ls)
          | Polygon rs \<Rightarrow> Polygon (map (map (quarterTurn angle pivot)) rs)
          | MultiPolygon ps \<Rightarrow> MultiPolygon (map (map (map (quarterTurn angle pivot))) ps))\<rparr>"

text \<open>A vertical or horizontal two-point line against the box of a ring.\<close>

definition boxLineIntersect :: "feature \<Rightarrow> feature \<Rightarrow> exn + Position list" where
  "boxLineIntersect l m =
     (case boxOf m of (x0, y0, x1, y1) \<Rightarrow>
      case coordsOf (geometry l) of
        [a, b] \<Rightarrow>
          if fst a = fst b \<and> x0 < fst a \<and> fst a < x1
          then Inr (filter (\<lambda>p. min (snd a) (snd b) \<le> snd p \<and> snd p \<le> max (snd a) (snd b))
                      [(fst a, y0), (fst a, y1)])
          else if snd a = snd b \<and> y0 < snd a \<and> snd a < y1
          then Inr (filter (\<lambda>p. min (fst a) (fst b) \<le> fst p \<and> fst p \<le> max (fst a) (fst b))
                      [(x0, snd a), (x1, snd a)])
          else Inr []
      | _ \<Rightarrow> Inl LibraryError)"

fun edgesOf :: "Position list \<Rightarrow> feature list" where
  "edgesOf (a # b # cs) = lineString [a, b] # edgesOf (b # cs)"
| "edgesOf cs = []"

definition boxLength :: "feature \<Rightarrow> real" where
  "boxLength l = sum_list (map (\<lambda>e. case coordsOf (geometry e) of
                                       [a, b] \<Rightarrow> boxDistance Kilometers a b
                                     | _ \<Rightarrow> 0) (edgesOf (coordsOf (geometry l))))"

definition boxAlong :: "feature \<Rightarrow> real \<Rightarrow> Position" where
  "boxAlong l d =
     (case coordsOf (geometry l) of
        [a, b] \<Rightarrow> (let len = boxDistance Kilometers a b in
                   if len = 0 then a
                   else (fst a + (fst b - fst a) * (d / len), snd a + (snd b - snd a) * (d / len)))
      | [] \<Rightarrow> (0, 0)
      | c # cs \<Rightarrow> c)"

definition boxTurf :: turf where
  "boxTurf =
     \<lparr>turf_polygon = (\<lambda>rings. if list_all (\<lambda>r. 4 \<le> length r \<and> hd r = last r) rings
                               then Inr \<lparr>geometry = Polygon rings, properties = Map.empty\<rparr>
                               else Inl LibraryError),
      turf_cleanCoords = Inr,
      turf_rewind = (\<lambda>f. f),
      turf_kinks = (\<lambda>f. []),
      turf_area = (\<lambda>f. case boxOf f of (x0, y0, x1, y1) \<Rightarrow>
                            ((x1 - x0) * 111320) * ((y1 - y0) * 111320)),
      turf_center = (\<lambda>f. case boxOf f of (x0, y0, x1, y1) \<Rightarrow> ((x0 + x1) / 2, (y0 + y1) / 2)),
      turf_distance = boxDistance,
      turf_bearing = boxBearing,
      turf_transformRotate = boxRotate,
      turf_bbox = boxOf,
      turf_bboxPolygon = boxPolygon,
      turf_booleanIntersects = (\<lambda>f g. boxMeet [f, g] \<noteq> None),
      turf_booleanPointInPolygon = boxInside,
      turf_intersect = (\<lambda>fs. Inr (boxMeet fs)),
      turf_difference = boxMinus,
      turf_union = boxJoin,
      turf_buffer = (\<lambda>f r u. Inr None),
      turf_dissolve = Inr,
      turf_polygonToLine = (\<lambda>f. case geometry f of
                                     Polygon (r # rs) \<Rightarrow> Inr (Feature (lineString r))
                                   | _ \<Rightarrow> Inl LibraryError),
      turf_nearestPointOnLine = (\<lambda>l p. case coordsOf (geometry l) of [] \<Rightarrow> p | c # cs \<Rightarrow> c),
      turf_lineIntersect = boxLineIntersect,
      turf_destination = boxDestination,
      turf_circle = (\<lambda>c r u n. boxPolygon (fst c - r / 111.32, snd c - r / 111.32,
                                              fst c + r / 111.32, snd c + r / 111.32)),
      turf_lineSplit = (\<lambda>l m. case l of
                                  None \<Rightarrow> Inl TypeError
                                | Some lf \<Rightarrow> Inr (Some (edgesOf (coordsOf (geometry lf))))),
      turf_length = boxLength,
      turf_along = boxAlong\<rparr>"

definition demoConfig :: SiteConfig where
  "demoConfig =
     \<lparr>roadWidth = 12, lotWidth = 8, lotDepth = 18, parkPercentage = 15, stories = 2,
      entryIndex = 0\<rparr>"

definition zeroRandom :: "nat \<Rightarrow> real" where
  "zeroRandom n = 0"

definition halfRandom :: "nat \<Rightarrow> real" where
  "halfRandom n = 1 / 2"

text \<open>Three lots in a row, of 100, 10 and 100 square metres.\<close>

definition lotA :: feature where
  "lotA = boxPolygon (0, 0, 10 / 111320, 10 / 111320)"

definition lotB :: feature where
  "lotB = boxPolygon (10 / 111320, 0, 11 / 111320, 10 / 111320)"

definition lotC :: feature where
  "lotC = boxPolygon (11 / 111320, 0, 21 / 111320, 10 / 111320)"

text \<open>A triangle of 31 square metres in its box, and a bowtie on the unit square
  of a thousandth of a degree.\<close>

definition smallTriangle :: "LatLng list" where
  "smallTriangle =
     [\<lparr>lat = 0, lng = 0\<rparr>, \<lparr>lat = 0, lng = 0.00005\<rparr>, \<lparr>lat = 0.00005, lng = 0\<rparr>]"

definition bowtie :: "LatLng list" where
  "bowtie =
     [\<lparr>lat = 0, lng = 0\<rparr>, \<lparr>lat = 0.001, lng = 0.001\<rparr>, \<lparr>lat = 0, lng = 0.001\<rparr>,
      \<lparr>lat = 0.001, lng = 0\<rparr>]"

text \<open>The library run on the bowtie reports the crossing of its two diagonals.\<close>

definition kinkTurf :: turf where
  "kinkTurf = boxTurf\<lparr>turf_kinks := (\<lambda>f. [(0.0005, 0.0005)])\<rparr>"


subsection \<open>A square site of 40 m by 40 m\<close>

text \<open>
  The site lies on the equator with its first edge pointing north, so that the
  working frame is the frame of the input. With a road width of 12 m and lots of
  8 m by 18 m the grid has one block of 40 m by 32 m, cut into two rows of five
  lots, and one road line crosses the boundary, at two entrance candidates.
\<close>

definition square :: "LatLng list" where
  "square =
     [\<lparr>lat = - 20 / 111320, lng = 0\<rparr>, \<lparr>lat = 20 / 111320, lng = 0\<rparr>,
      \<lparr>lat = 20 / 111320, lng = 40 / 111320\<rparr>, \<lparr>lat = - 20 / 111320, lng = 40 / 111320\<rparr>]"

definition runConfig :: SiteConfig where
  "runConfig =
     \<lparr>roadWidth = 12, lotWidth = 8, lotDepth = 18, parkPercentage = 0, stories = 2,
      entryIndex = 7\<rparr>"

definition squareRing :: "Position list" where
  "squareRing = [(0, - 20 / 111320), (0, 20 / 111320), (40 / 111320, 20 / 111320),
       (40 / 111320, - 20 / 111320), (0, - 20 / 111320)]"

definition squareSite :: feature where
  "squareSite = \<lparr>geometry = Polygon [squareRing], properties = Map.empty\<rparr>"

definition squareLocals :: Locals where
  "squareLocals = \<lparr>center = (20 / 111320, 0), alignmentAngle = 0,
       workingSitePoly = squareSite, workingEffectivePoly = squareSite,
       Mx = 1 / 111320, My = 1 / 111320,
       bbox = (0, - 20 / 111320, 40 / 111320, 20 / 111320),
       blockDepthDeg = 36 / 111320, targetBlockWidthDeg = 64 / 111320,
       roadWidthDegX = 12 / 111320, roadWidthDegY = 12 / 111320,
       xStep = 76 / 111320, yStep = 48 / 111320, numCols = 1, numRows = 1,
       startX = - 18 / 111320, startY = - 24 / 111320\<rparr>"

definition squareBlock :: GridCell where
  "squareBlock = \<lparr>poly = boxPolygon (0, - 20 / 111320, 40 / 111320, 12 / 111320), btype = Unknown,
     originalPoly = boxPolygon (- 18 / 111320, - 24 / 111320, 46 / 111320, 12 / 111320),
     col = 2, row = 2, originalBbox = (- 18 / 111320, - 24 / 111320, 46 / 111320, 12 / 111320)\<rparr>"

definition squareIntersections :: "Position list" where
  "squareIntersections =
     concat (map (\<lambda>x. map (\<lambda>y. (x / 111320, y / 111320)) [- 78, - 30, 18, 66, 114])
                 [- 100, - 24, 52, 128, 204])"

definition resBlock :: GridCell where
  "resBlock = squareBlock\<lparr>btype := Residential\<rparr>"

definition bottomLots :: "feature list" where
  "bottomLots = map (\<lambda>k. boxPolygon (k / 111320, - 20 / 111320, (k + 8) / 111320, - 6 / 111320)) [0, 8, 16, 24, 32]"

definition topLots :: "feature list" where
  "topLots = map (\<lambda>k. boxPolygon (k / 111320, - 6 / 111320, (k + 8) / 111320, 12 / 111320)) [0, 8, 16, 24, 32]"

definition tagLot :: "Locals \<Rightarrow> bool \<Rightarrow> nat \<Rightarrow> feature \<Rightarrow> feature" where
  "tagLot L isBottom lotId lot =
     lot\<lparr>properties := (properties lot)
           (''lotId'' \<mapsto> PNum (real lotId), ''isBottomRow'' \<mapsto> PBool isBottom,
            ''alignmentAngle'' \<mapsto> PNum (alignmentAngle L))\<rparr>"

definition blockPoly :: feature where
  "blockPoly = boxPolygon (0, - 20 / 111320, 40 / 111320, 12 / 111320)"

definition runState :: "(nat \<Rightarrow> real) \<Rightarrow> GenState" where
  "runState rnd =
     closeBlock boxTurf blockPoly
       (fold (emitLot boxTurf squareLocals False) topLots
         (fold (emitLot boxTurf squareLocals True) bottomLots
           ((initState rnd)\<lparr>lotsGeneratedInBlock := 0\<rparr>)))"

definition runLots :: "feature list" where
  "runLots = map (\<lambda>(i, lot). tagLot squareLocals True i lot) (enumerate 0 bottomLots)
           @ map (\<lambda>(i, lot). tagLot squareLocals False i lot) (enumerate 5 topLots)"

definition ringLine :: feature where
  "ringLine = lineString squareRing"

definition westGate :: Candidate where
  "westGate = \<lparr>midpoint = (0, 18 / 111320), roadBearing = 90\<rparr>"

definition eastGate :: Candidate where
  "eastGate = \<lparr>midpoint = (40 / 111320, 18 / 111320), roadBearing = 90\<rparr>"

definition runStats :: ProjectStats where
  "runStats =
     \<lparr>siteArea = 1600, netSellableArea = 1280, roadArea = 320, parkArea = 0, totalLots = 10,
      efficiency = 0.8, possibleEntrances = 2\<rparr>"

definition runGeometry :: "(nat \<Rightarrow> real) \<Rightarrow> AccessControl \<Rightarrow> GeneratedGeometry" where
  "runGeometry rnd ac =
     \<lparr>siteBoundary = Some squareSite, superblocks = [blockPoly], roads = [], lots = runLots,
      buildings = tempBuildings (runState rnd), parks = [], trees = tempTrees (runState rnd),
      perimeterWalls = map Some (edgesOf squareRing), accessControl = Some ac,
      roadMarkings = [], stopSigns = [],
      entranceCandidates = [\<lparr>lat = 18 / 111320, lng = 0\<rparr>, \<lparr>lat = 18 / 111320, lng = 40 / 111320\<rparr>],
      isValid = True, error = None\<rparr>"

subsection \<open>What the random draws cannot reach\<close>

text \<open>
  The part of the state that holds no tree, no building and no random source, and
  the part of a result that holds no tree and no building.
\<close>

definition det :: "GenState \<Rightarrow> GenState" where
  "det s = s\<lparr>tempBuildings := [], tempTrees := [], rng := (\<lambda>n. 0)\<rparr>"

definition detR :: "exn + GenState \<Rightarrow> exn + GenState" where
  "detR r = map_sum id det r"

definition strip :: "GeneratedGeometry \<times> ProjectStats \<Rightarrow> GeneratedGeometry \<times> ProjectStats" where
  "strip r = ((fst r)\<lparr>trees := [], buildings := []\<rparr>, snd r)"


section \<open>Properties\<close>

subsection \<open>Shared lemmas\<close>

lemma tryBody_invalid:
  assumes "tryBody T rnd points config constraints = Some (Inr (g, st))" and "\<not> isValid g"
  shows "st = emptyStats \<and> lots g = []"
  using assms unfolding tryBody_def finish_def
  by (auto simp: Let_def emptyGeometry_def split: sum.splits option.splits if_splits prod.splits)

lemma jsRem_nat:
  assumes "0 < m"
  shows "jsRem (real n) (real m) = real (n mod m)"
proof -
  have nn: "\<not> real n / real m < 0" by (simp add: divide_less_0_iff)
  have fl: "\<lfloor>real n / real m\<rfloor> = int (n div m)" by (simp add: floor_divide_of_nat_eq)
  have "real n = real (m * (n div m) + n mod m)" by simp
  then have "real n = real m * real (n div m) + real (n mod m)"
    by (simp only: of_nat_add of_nat_mult)
  then show ?thesis using nn fl by (simp add: jsRem_def)
qed

lemma arrayGet_nat: "k < length xs \<Longrightarrow> arrayGet xs (real k) = Some (xs ! k)"
  by (simp add: arrayGet_def)

lemma siteOf_smallTriangle:
  "siteOf boxTurf smallTriangle =
     Inr (Some \<lparr>geometry = Polygon [[(0, 0), (0.00005, 0), (0, 0.00005), (0, 0)]],
                properties = Map.empty\<rparr>)"
  by (simp add: siteOf_def boxTurf_def smallTriangle_def toRing_def coordinatesLength_def)

lemma siteOf_bowtie:
  "siteOf kinkTurf bowtie =
     Inr (Some \<lparr>geometry = Polygon [[(0, 0), (0.001, 0.001), (0.001, 0), (0, 0.001), (0, 0)]],
                properties = Map.empty\<rparr>)"
  by (simp add: siteOf_def kinkTurf_def boxTurf_def bowtie_def toRing_def coordinatesLength_def)

subsection \<open>Fewer than three points\<close>

text \<open>
  C5, as the code has it: for every list of fewer than 3 boundary points,
  \<open>generateBuilding\<close> returns, without throwing, the empty result: it is invalid
  (\<open>isValid = false\<close>), its statistics are zero, and it carries no error string.
\<close>

theorem few_points_empty_result:
  assumes "length points < 3"
  shows "generateBuilding T rnd points config constraints = Some (emptyGeometry, emptyStats)
         \<and> isValid emptyGeometry = False \<and> error emptyGeometry = None"
  using assms by (simp add: generateBuilding_def emptyGeometry_def)

theorem few_points_empty_result_witness:
  "length ([] :: LatLng list) < 3
   \<and> generateBuilding boxTurf zeroRandom [] demoConfig [] = Some (emptyGeometry, emptyStats)
   \<and> isValid emptyGeometry = False \<and> error emptyGeometry = None"
  using few_points_empty_result [of "[]" boxTurf zeroRandom demoConfig "[]"] by simp

text \<open>C5 as stated fails: the result for no points has no error message.\<close>

theorem few_points_message_counterexample:
  "generateBuilding boxTurf zeroRandom [\<lparr>lat = 0, lng = 0\<rparr>, \<lparr>lat = 0, lng = 1\<rparr>] demoConfig []
     = Some (emptyGeometry, emptyStats)
   \<and> error emptyGeometry = None"
  by (simp add: generateBuilding_def emptyGeometry_def)

subsection \<open>Invalid results\<close>

text \<open>
  C10: whenever \<open>generateBuilding\<close> returns a result with \<open>isValid = false\<close>, all
  seven statistics are 0.
\<close>

theorem invalid_result_zero_stats:
  assumes "generateBuilding T rnd points config constraints = Some (g, st)"
    and "\<not> isValid g"
  shows "siteArea st = 0 \<and> netSellableArea st = 0 \<and> roadArea st = 0 \<and> parkArea st = 0
         \<and> totalLots st = 0 \<and> efficiency st = 0 \<and> possibleEntrances st = 0"
proof -
  have "st = emptyStats"
    using assms tryBody_invalid [of T rnd points config constraints g st]
    by (auto simp: generateBuilding_def emptyGeometry_def split: if_splits sum.splits option.splits)
  then show ?thesis by (simp add: emptyStats_def)
qed

theorem invalid_result_zero_stats_witness:
  "generateBuilding kinkTurf zeroRandom bowtie demoConfig []
     = Some (emptyGeometry\<lparr>siteBoundary :=
               Some \<lparr>geometry = Polygon [[(0, 0), (0.001, 0.001), (0.001, 0), (0, 0.001), (0, 0)]],
                     properties = Map.empty\<rparr>,
               isValid := False, error := Some selfIntersectionError\<rparr>, emptyStats)
   \<and> siteArea emptyStats = 0 \<and> netSellableArea emptyStats = 0 \<and> roadArea emptyStats = 0
   \<and> parkArea emptyStats = 0 \<and> totalLots emptyStats = 0 \<and> efficiency emptyStats = 0
   \<and> possibleEntrances emptyStats = 0"
proof -
  have run: "generateBuilding kinkTurf zeroRandom bowtie demoConfig []
     = Some (emptyGeometry\<lparr>siteBoundary :=
               Some \<lparr>geometry = Polygon [[(0, 0), (0.001, 0.001), (0.001, 0), (0, 0.001), (0, 0)]],
                     properties = Map.empty\<rparr>,
               isValid := False, error := Some selfIntersectionError\<rparr>, emptyStats)"
    by (simp add: generateBuilding_def tryBody_def siteOf_bowtie)
       (simp add: bowtie_def kinkTurf_def)
  show ?thesis
    using invalid_result_zero_stats [OF run] run by simp
qed

subsection \<open>Self-intersecting boundaries\<close>

text \<open>
  C3: when the boundary has at least 3 points, its closed ring is built into the
  site polygon and \<open>kinks\<close> finds a self-intersection of it, \<open>generateBuilding\<close>
  returns (it does not throw) an invalid result with the self-intersection error.
\<close>

theorem self_intersection_rejected:
  assumes "3 \<le> length points"
    and "siteOf T points = Inr (Some site)"
    and "turf_kinks T site \<noteq> []"
  shows "\<exists>g. generateBuilding T rnd points config constraints = Some (g, emptyStats)
             \<and> isValid g = False \<and> error g = Some selfIntersectionError \<and> lots g = []"
  using assms by (simp add: generateBuilding_def tryBody_def emptyGeometry_def)

theorem self_intersection_rejected_witness:
  "3 \<le> length bowtie
   \<and> turf_kinks kinkTurf
        \<lparr>geometry = Polygon [[(0, 0), (0.001, 0.001), (0.001, 0), (0, 0.001), (0, 0)]],
         properties = Map.empty\<rparr> \<noteq> []
   \<and> (\<exists>g. generateBuilding kinkTurf halfRandom bowtie demoConfig [] = Some (g, emptyStats)
           \<and> isValid g = False \<and> error g = Some selfIntersectionError \<and> lots g = [])"
proof -
  have len: "3 \<le> length bowtie" by (simp add: bowtie_def)
  have k: "turf_kinks kinkTurf
        \<lparr>geometry = Polygon [[(0, 0), (0.001, 0.001), (0.001, 0), (0, 0.001), (0, 0)]],
         properties = Map.empty\<rparr> \<noteq> []"
    by (simp add: kinkTurf_def)
  show ?thesis
    using self_intersection_rejected [OF len siteOf_bowtie k, of halfRandom demoConfig "[]"] len k
    by simp
qed

subsection \<open>Boundaries of small area\<close>

text \<open>
  C4: when the area of the site polygon of the input is below 100,
  \<open>generateBuilding\<close> returns (it does not throw) an invalid result with no lot.
\<close>

theorem small_area_rejected:
  assumes "\<forall>site. siteOf T points = Inr (Some site) \<longrightarrow> turf_area T site < 100"
  shows "\<exists>g. generateBuilding T rnd points config constraints = Some (g, emptyStats)
             \<and> isValid g = False \<and> lots g = []"
proof (cases "siteOf T points")
  case (Inl e)
  then show ?thesis
    by (simp add: generateBuilding_def tryBody_def emptyGeometry_def)
next
  case (Inr r)
  show ?thesis
  proof (cases r)
    case None
    then show ?thesis using Inr
      by (simp add: generateBuilding_def tryBody_def emptyGeometry_def)
  next
    case (Some site)
    then have "turf_area T site < 100" using assms Inr by simp
    then show ?thesis using Inr Some
      by (simp add: generateBuilding_def tryBody_def emptyGeometry_def Let_def)
  qed
qed

theorem small_area_rejected_witness:
  "siteOf boxTurf smallTriangle =
     Inr (Some \<lparr>geometry = Polygon [[(0, 0), (0.00005, 0), (0, 0.00005), (0, 0)]],
                properties = Map.empty\<rparr>)
   \<and> turf_area boxTurf
        \<lparr>geometry = Polygon [[(0, 0), (0.00005, 0), (0, 0.00005), (0, 0)]],
         properties = Map.empty\<rparr> < 100
   \<and> (\<exists>g. generateBuilding boxTurf zeroRandom smallTriangle demoConfig [] = Some (g, emptyStats)
           \<and> isValid g = False \<and> lots g = [])"
proof -
  have a: "turf_area boxTurf
        \<lparr>geometry = Polygon [[(0, 0), (0.00005, 0), (0, 0.00005), (0, 0)]],
         properties = Map.empty\<rparr> < 100"
    by (simp add: boxTurf_def boxOf_def coordsOf_def)
  have small: "\<forall>site. siteOf boxTurf smallTriangle = Inr (Some site) \<longrightarrow> turf_area boxTurf site < 100"
    using a by (simp add: siteOf_smallTriangle)
  show ?thesis
    using small_area_rejected [OF small, of zeroRandom demoConfig "[]"] a siteOf_smallTriangle
    by simp
qed

subsection \<open>The tie between the neighbours of a sliver\<close>

lemma chooseTarget_tie:
  assumes "0 < w" and "w + 1 < length mergedLots"
    and "turf_area T (mergedLots ! (w - 1)) = turf_area T (mergedLots ! (w + 1))"
  shows "chooseTarget T mergedLots w = Some (w + 1)"
  using assms by (simp add: chooseTarget_def Let_def)

text \<open>
  C8, as the code has it: in a pass of the merge loop, when the worst lot (the
  first of least area under 75% of the nominal area) has a left and a right
  neighbour of equal area, the lot is merged with its right neighbour: the two are
  replaced by their union when \<open>union\<close> yields one, and the pass changes nothing
  otherwise.
\<close>

theorem tie_merges_right:
  assumes "findWorst T (targetLotArea * 0.75) mergedLots 0 None None = Some w"
    and "0 < w" and "w + 1 < length mergedLots"
    and "turf_area T (mergedLots ! (w - 1)) = turf_area T (mergedLots ! (w + 1))"
  shows "mergeStep T targetLotArea mergedLots =
           (case turf_union T [mergedLots ! w, mergedLots ! (w + 1)] of
              Inr (Some u) \<Rightarrow> (True, take w mergedLots @ [u] @ drop (w + 2) mergedLots)
            | Inr None \<Rightarrow> (False, mergedLots)
            | Inl e \<Rightarrow> (False, mergedLots))"
  using assms(1) chooseTarget_tie [OF assms(2,3,4)]
  by (simp add: mergeStep_def Let_def split: sum.splits option.splits)

lemma three_lots_areas:
  "turf_area boxTurf lotA = 100" "turf_area boxTurf lotB = 10" "turf_area boxTurf lotC = 100"
  by (simp_all add: boxTurf_def boxOf_def coordsOf_def boxPolygon_def lotA_def lotB_def lotC_def)

lemma three_lots_worst: "findWorst boxTurf (200 * 0.75) [lotA, lotB, lotC] 0 None None = Some 1"
  by (simp add: three_lots_areas)

theorem tie_merges_right_witness:
  "findWorst boxTurf (200 * 0.75) [lotA, lotB, lotC] 0 None None = Some 1
   \<and> turf_area boxTurf ([lotA, lotB, lotC] ! (1 - 1)) = turf_area boxTurf ([lotA, lotB, lotC] ! (1 + 1))
   \<and> mergeStep boxTurf 200 [lotA, lotB, lotC]
       = (True, [lotA, boxPolygon (10 / 111320, 0, 21 / 111320, 10 / 111320)])"
proof -
  have tie: "turf_area boxTurf ([lotA, lotB, lotC] ! (1 - 1)) = turf_area boxTurf ([lotA, lotB, lotC] ! (1 + 1))"
    by (simp add: three_lots_areas)
  have u: "turf_union boxTurf [lotB, lotC] = Inr (Some (boxPolygon (10 / 111320, 0, 21 / 111320, 10 / 111320)))"
    by (simp add: boxTurf_def boxJoin_def boxOf_def coordsOf_def boxPolygon_def lotB_def lotC_def)
  show ?thesis
    using tie_merges_right [OF three_lots_worst _ _ tie] three_lots_worst tie u by simp
qed

text \<open>C8 as stated fails: with neighbours of 100 and 100 square metres the
  sliver of 10 is not merged with the left one.\<close>

theorem tie_merges_left_counterexample:
  "turf_area boxTurf lotA = turf_area boxTurf lotC
   \<and> findWorst boxTurf (200 * 0.75) [lotA, lotB, lotC] 0 None None = Some 1
   \<and> turf_union boxTurf [lotA, lotB] = Inr (Some (boxPolygon (0, 0, 11 / 111320, 10 / 111320)))
   \<and> mergeStep boxTurf 200 [lotA, lotB, lotC]
       \<noteq> (True, [boxPolygon (0, 0, 11 / 111320, 10 / 111320), lotC])
   \<and> mergeStep boxTurf 200 [lotA, lotB, lotC]
       = (True, [lotA, boxPolygon (10 / 111320, 0, 21 / 111320, 10 / 111320)])"
proof -
  have uAB: "turf_union boxTurf [lotA, lotB] = Inr (Some (boxPolygon (0, 0, 11 / 111320, 10 / 111320)))"
    by (simp add: boxTurf_def boxJoin_def boxOf_def coordsOf_def boxPolygon_def lotA_def lotB_def)
  have uBC: "turf_union boxTurf [lotB, lotC] = Inr (Some (boxPolygon (10 / 111320, 0, 21 / 111320, 10 / 111320)))"
    by (simp add: boxTurf_def boxJoin_def boxOf_def coordsOf_def boxPolygon_def lotB_def lotC_def)
  have tgt: "chooseTarget boxTurf [lotA, lotB, lotC] 1 = Some 2"
    by (simp add: chooseTarget_def three_lots_areas)
  have step: "mergeStep boxTurf 200 [lotA, lotB, lotC]
       = (True, [lotA, boxPolygon (10 / 111320, 0, 21 / 111320, 10 / 111320)])"
    using three_lots_worst tgt uBC by (simp add: mergeStep_def)
  have ne: "lotA \<noteq> boxPolygon (0, 0, 11 / 111320, 10 / 111320)"
    by (simp add: lotA_def boxPolygon_def)
  show ?thesis
    using step uAB three_lots_worst ne by (simp add: three_lots_areas)
qed



subsection \<open>Independence of the random draws\<close>

lemma det_idem: "det (det s) = det s"
  by (simp add: det_def)

lemma det_fields:
  "tempLots (det s) = tempLots s" "tempParks (det s) = tempParks s"
  "tempSuperblocks (det s) = tempSuperblocks s" "globalLotIndex (det s) = globalLotIndex s"
  "lotsGeneratedInBlock (det s) = lotsGeneratedInBlock s"
  by (simp_all add: det_def)

lemma det_eq_iff:
  "det s = det s' \<longleftrightarrow>
     tempLots s = tempLots s' \<and> tempParks s = tempParks s' \<and>
     tempSuperblocks s = tempSuperblocks s' \<and> globalLotIndex s = globalLotIndex s' \<and>
     lotsGeneratedInBlock s = lotsGeneratedInBlock s'"
  by (cases s; cases s') (simp add: det_def)

lemma det_advance: "det (advance s) = det s"
  by (simp add: det_def advance_def)

lemma det_trees: "det (s\<lparr>tempTrees := ts\<rparr>) = det s"
  by (simp add: det_def)

lemma det_buildings: "det (s\<lparr>tempBuildings := bs\<rparr>) = det s"
  by (simp add: det_def)

lemma det_treeLoop:
  "det (treeLoop T parkBbox searchPoly parkId actualTarget maxAttempts placedTrees attempts s) = det s"
proof (induction T parkBbox searchPoly parkId actualTarget maxAttempts placedTrees attempts s
       rule: treeLoop.induct)
  case (1 T parkBbox searchPoly parkId actualTarget maxAttempts placedTrees attempts s)
  show ?case
    apply (subst treeLoop.simps)
    using 1
    apply (simp add: Let_def det_advance det_trees)
    done
qed

lemma det_fillParkWithTrees: "det (fillParkWithTrees T parkPoly parkId s) = det s"
  by (simp add: fillParkWithTrees_def Let_def det_treeLoop)

lemma det_addPark: "det (addPark T p s) = det (addPark T p (det s))"
  by (simp add: addPark_def Let_def det_fillParkWithTrees) (simp add: det_def)

lemma det_placeBuilding: "det (placeBuilding T L isBottom lotShape lotBbox lotId s) = det s"
  by (simp add: placeBuilding_def Let_def det_advance det_buildings split: prod.splits sum.splits option.splits)

lemma det_placeTree: "det (placeTree T L isBottom lotShape lotBbox lotId s) = det s"
  by (simp add: placeTree_def Let_def det_advance det_trees split: prod.splits)

lemma placeBuilding_frame:
  "tempLots (placeBuilding T L isBottom lotShape lotBbox lotId s) = tempLots s"
  "tempParks (placeBuilding T L isBottom lotShape lotBbox lotId s) = tempParks s"
  "tempSuperblocks (placeBuilding T L isBottom lotShape lotBbox lotId s) = tempSuperblocks s"
  "globalLotIndex (placeBuilding T L isBottom lotShape lotBbox lotId s) = globalLotIndex s"
  "lotsGeneratedInBlock (placeBuilding T L isBottom lotShape lotBbox lotId s) = lotsGeneratedInBlock s"
  using det_placeBuilding [of T L isBottom lotShape lotBbox lotId s]
  by (simp_all add: det_eq_iff)

lemma placeTree_frame:
  "tempLots (placeTree T L isBottom lotShape lotBbox lotId s) = tempLots s"
  "tempParks (placeTree T L isBottom lotShape lotBbox lotId s) = tempParks s"
  "tempSuperblocks (placeTree T L isBottom lotShape lotBbox lotId s) = tempSuperblocks s"
  "globalLotIndex (placeTree T L isBottom lotShape lotBbox lotId s) = globalLotIndex s"
  "lotsGeneratedInBlock (placeTree T L isBottom lotShape lotBbox lotId s) = lotsGeneratedInBlock s"
  using det_placeTree [of T L isBottom lotShape lotBbox lotId s]
  by (simp_all add: det_eq_iff)

lemma emitLot_rel:
  assumes "det s = det s'"
  shows "det (emitLot T L isBottom lotShape s) = det (emitLot T L isBottom lotShape s')"
  using assms
  by (simp add: det_eq_iff emitLot_def Let_def placeBuilding_frame placeTree_frame)

lemma det_rel:
  assumes h: "\<And>s. det (f s) = det (f (det s))" and e: "det s = det s'"
  shows "det (f s) = det (f s')"
proof -
  have "det (f s) = det (f (det s))" by (rule h)
  also have "\<dots> = det (f (det s'))" by (simp only: e)
  also have "\<dots> = det (f s')" by (rule h [symmetric])
  finally show ?thesis .
qed

lemma addPark_rel: "det s = det s' \<Longrightarrow> det (addPark T p s) = det (addPark T p s')"
  by (rule det_rel [of "addPark T p"]) (rule det_addPark)

lemma fold_rel:
  assumes "\<And>x s s'. det s = det s' \<Longrightarrow> det (f x s) = det (f x s')"
    and "det s = det s'"
  shows "det (fold f xs s) = det (fold f xs s')"
  using assms(2)
proof (induction xs arbitrary: s s')
  case Nil
  then show ?case by simp
next
  case (Cons x xs)
  have "det (f x s) = det (f x s')" using Cons.prems by (rule assms(1))
  then have "det (fold f xs (f x s)) = det (fold f xs (f x s'))" by (rule Cons.IH)
  then show ?case by simp
qed


lemma processOneZone_rel:
  assumes "det s = det s'"
  shows "det (processOneZone T config L isBottom zone s) = det (processOneZone T config L isBottom zone s')"
proof -
  have "\<And>ls. det (fold (emitLot T L isBottom) ls s) = det (fold (emitLot T L isBottom) ls s')"
    by (rule fold_rel [OF emitLot_rel assms])
  then show ?thesis using assms
    by (simp add: processOneZone_def Let_def split: prod.splits)
qed

lemma processZone_rel:
  assumes "det s = det s'"
  shows "detR (processZone T config L zonePoly isBottom s) = detR (processZone T config L zonePoly isBottom s')"
proof -
  have "\<And>zs. det (fold (processOneZone T config L isBottom) zs s) = det (fold (processOneZone T config L isBottom) zs s')"
    by (rule fold_rel [OF processOneZone_rel assms])
  then show ?thesis
    by (simp add: processZone_def detR_def split: sum.splits)
qed

lemma closeBlock_rel:
  assumes "det s = det s'"
  shows "det (closeBlock T processedBlock s) = det (closeBlock T processedBlock s')"
proof -
  have l: "lotsGeneratedInBlock s = lotsGeneratedInBlock s'"
    using assms by (simp add: det_eq_iff)
  have push: "det (s\<lparr>tempSuperblocks := tempSuperblocks s @ [processedBlock]\<rparr>)
            = det (s'\<lparr>tempSuperblocks := tempSuperblocks s' @ [processedBlock]\<rparr>)"
    using assms by (simp add: det_eq_iff)
  show ?thesis
    using l push addPark_rel [OF assms, where T = T and p = processedBlock] assms
    by (simp add: closeBlock_def)
qed


lemma detR_cases:
  assumes "detR r = detR r'"
  shows "(\<exists>e. r = Inl e \<and> r' = Inl e) \<or> (\<exists>t t'. r = Inr t \<and> r' = Inr t' \<and> det t = det t')"
  using assms by (cases r; cases r') (simp_all add: detR_def)

lemma zoneStep_rel:
  assumes "det a = det a'"
  shows "detR (case zo of None \<Rightarrow> Inr a | Some z \<Rightarrow> processZone T config L z b a)
       = detR (case zo of None \<Rightarrow> Inr a' | Some z \<Rightarrow> processZone T config L z b a')"
proof (cases zo)
  case None
  then show ?thesis using assms by (simp add: detR_def)
next
  case (Some z)
  then show ?thesis using processZone_rel [OF assms] by simp
qed

lemma tryZones_rel:
  fixes catch :: "GenState \<Rightarrow> GenState"
  assumes e: "det a = det a'"
    and c: "\<And>t t'. det t = det t' \<Longrightarrow> det (catch t) = det (catch t')"
  shows "detR (case (case bottomZone of None \<Rightarrow> Inr a | Some z \<Rightarrow> processZone T config L z True a) of
                 Inl e \<Rightarrow> Inr (catch a)
               | Inr s1 \<Rightarrow>
                  (case (case topZone of None \<Rightarrow> Inr s1 | Some z \<Rightarrow> processZone T config L z False s1) of
                     Inl e \<Rightarrow> Inr (catch s1)
                   | Inr s2 \<Rightarrow> Inr (closeBlock T pb s2)))
       = detR (case (case bottomZone of None \<Rightarrow> Inr a' | Some z \<Rightarrow> processZone T config L z True a') of
                 Inl e \<Rightarrow> Inr (catch a')
               | Inr s1 \<Rightarrow>
                  (case (case topZone of None \<Rightarrow> Inr s1 | Some z \<Rightarrow> processZone T config L z False s1) of
                     Inl e \<Rightarrow> Inr (catch s1)
                   | Inr s2 \<Rightarrow> Inr (closeBlock T pb s2)))"
proof -
  from detR_cases [OF zoneStep_rel [OF e, where zo = bottomZone and T = T and config = config and L = L and b = True]]
  show ?thesis
  proof
    assume "\<exists>x. (case bottomZone of None \<Rightarrow> Inr a | Some z \<Rightarrow> processZone T config L z True a) = Inl x
          \<and> (case bottomZone of None \<Rightarrow> Inr a' | Some z \<Rightarrow> processZone T config L z True a') = Inl x"
    then show ?thesis using c [OF e] by (auto simp: detR_def)
  next
    assume "\<exists>t t'. (case bottomZone of None \<Rightarrow> Inr a | Some z \<Rightarrow> processZone T config L z True a) = Inr t
          \<and> (case bottomZone of None \<Rightarrow> Inr a' | Some z \<Rightarrow> processZone T config L z True a') = Inr t'
          \<and> det t = det t'"
    then obtain t t' where
      b1: "(case bottomZone of None \<Rightarrow> Inr a | Some z \<Rightarrow> processZone T config L z True a) = Inr t"
      and b2: "(case bottomZone of None \<Rightarrow> Inr a' | Some z \<Rightarrow> processZone T config L z True a') = Inr t'"
      and tt: "det t = det t'" by blast
    from detR_cases [OF zoneStep_rel [OF tt, where zo = topZone and T = T and config = config and L = L and b = False]]
    show ?thesis
    proof
      assume "\<exists>x. (case topZone of None \<Rightarrow> Inr t | Some z \<Rightarrow> processZone T config L z False t) = Inl x
          \<and> (case topZone of None \<Rightarrow> Inr t' | Some z \<Rightarrow> processZone T config L z False t') = Inl x"
      then show ?thesis using c [OF tt] b1 b2 by (auto simp: detR_def)
    next
      assume "\<exists>u u'. (case topZone of None \<Rightarrow> Inr t | Some z \<Rightarrow> processZone T config L z False t) = Inr u
          \<and> (case topZone of None \<Rightarrow> Inr t' | Some z \<Rightarrow> processZone T config L z False t') = Inr u'
          \<and> det u = det u'"
      then obtain u u' where
        t1: "(case topZone of None \<Rightarrow> Inr t | Some z \<Rightarrow> processZone T config L z False t) = Inr u"
        and t2: "(case topZone of None \<Rightarrow> Inr t' | Some z \<Rightarrow> processZone T config L z False t') = Inr u'"
        and uu: "det u = det u'" by blast
      show ?thesis using closeBlock_rel [OF uu, where T = T and processedBlock = pb] b1 b2 t1 t2 by (simp add: detR_def)
    qed
  qed
qed

lemma residentialBlock_rel:
  assumes "det s = det s'"
  shows "detR (residentialBlock T config L block s) = detR (residentialBlock T config L block s')"
proof (cases "turf_cleanCoords T (poly block)")
  case (Inl e)
  then show ?thesis by (simp add: residentialBlock_def detR_def)
next
  case (Inr pb0)
  have e0: "det (s\<lparr>lotsGeneratedInBlock := 0\<rparr>) = det (s'\<lparr>lotsGeneratedInBlock := 0\<rparr>)"
    using assms by (simp add: det_eq_iff)
  have c: "\<And>t t'. det t = det t' \<Longrightarrow>
      det (t\<lparr>tempSuperblocks := tempSuperblocks t @ [poly block]\<rparr>)
    = det (t'\<lparr>tempSuperblocks := tempSuperblocks t' @ [poly block]\<rparr>)"
    by (simp add: det_eq_iff)
  show ?thesis
    using tryZones_rel [OF e0, where catch = "\<lambda>st. st\<lparr>tempSuperblocks := tempSuperblocks st @ [poly block]\<rparr>", OF c] c [OF e0]
    by (simp add: residentialBlock_def Inr Let_def detR_def split: prod.splits sum.splits)
qed

lemma foldThrow_rel:
  assumes "\<And>x s s'. det s = det s' \<Longrightarrow> detR (f x s) = detR (f x s')"
    and "det s = det s'"
  shows "detR (foldThrow f xs s) = detR (foldThrow f xs s')"
  using assms(2)
proof (induction xs arbitrary: s s')
  case Nil
  then show ?case by (simp add: detR_def)
next
  case (Cons x xs)
  from detR_cases [OF assms(1) [OF Cons.prems, where x = x]]
  show ?case
  proof
    assume "\<exists>e. f x s = Inl e \<and> f x s' = Inl e"
    then show ?thesis by (auto simp: detR_def)
  next
    assume "\<exists>t t'. f x s = Inr t \<and> f x s' = Inr t' \<and> det t = det t'"
    then obtain t t' where "f x s = Inr t" "f x s' = Inr t'" "det t = det t'" by blast
    then show ?thesis using Cons.IH [of t t'] by simp
  qed
qed

lemma mergeParks_rel:
  assumes "det s = det s'"
  shows "det (mergeParks T L parkBlocks s) = det (mergeParks T L parkBlocks s')"
proof -
  have a: "\<And>fs. det (fold (\<lambda>feature. addPark T (turf_rewind T feature)) fs s)
              = det (fold (\<lambda>feature. addPark T (turf_rewind T feature)) fs s')"
    by (rule fold_rel [OF addPark_rel assms])
  have b: "det (fold (\<lambda>b. addPark T (poly b)) parkBlocks s)
         = det (fold (\<lambda>b. addPark T (poly b)) parkBlocks s')"
    by (rule fold_rel [OF addPark_rel assms])
  show ?thesis using a b assms
    by (simp add: mergeParks_def Let_def split: sum.splits)
qed

lemma layout_rel:
  "map_sum id (\<lambda>(s, i). (det s, i)) (layout T config constraints L rnd)
   = map_sum id (\<lambda>(s, i). (det s, i)) (layout T config constraints L rnd')"
proof -
  have i: "det (initState rnd) = det (initState rnd')"
    by (simp add: det_def initState_def)
  obtain gridInfo0 intersections where g: "buildGrid T L = (gridInfo0, intersections)"
    by (cases "buildGrid T L") auto
  define res where "res = filter (\<lambda>b. btype b \<noteq> Park) (classify T config (workingConstraints T L constraints) gridInfo0)"
  from detR_cases [OF foldThrow_rel [where f = "residentialBlock T config L" and xs = res, OF residentialBlock_rel i]]
  show ?thesis
  proof
    assume "\<exists>e. foldThrow (residentialBlock T config L) res (initState rnd) = Inl e \<and>
        foldThrow (residentialBlock T config L) res (initState rnd') = Inl e"
    then show ?thesis by (auto simp: layout_def g Let_def res_def)
  next
    assume "\<exists>t t'. foldThrow (residentialBlock T config L) res (initState rnd) = Inr t \<and>
           foldThrow (residentialBlock T config L) res (initState rnd') = Inr t' \<and> det t = det t'"
    then obtain t t' where
      "foldThrow (residentialBlock T config L) res (initState rnd) = Inr t"
      "foldThrow (residentialBlock T config L) res (initState rnd') = Inr t'" "det t = det t'"
      by blast
    then show ?thesis using mergeParks_rel [where s = t and s' = t' and T = T and L = L]
      by (simp add: layout_def g Let_def res_def)
  qed
qed


lemma finish_rel:
  assumes "det s = det s'"
  shows "map_option (map_sum id strip) (finish T config L site a s i)
       = map_option (map_sum id strip) (finish T config L site a s' i)"
proof -
  have e: "tempLots s = tempLots s'" "tempParks s = tempParks s'"
    "tempSuperblocks s = tempSuperblocks s'"
    using assms by (simp_all add: det_eq_iff)
  show ?thesis
    by (simp add: finish_def e Let_def strip_def split: option.splits sum.splits prod.splits)
qed

lemma layout_cases:
  "(\<exists>e. layout T config constraints L rnd = Inl e \<and> layout T config constraints L rnd' = Inl e)
   \<or> (\<exists>s s' i. layout T config constraints L rnd = Inr (s, i)
          \<and> layout T config constraints L rnd' = Inr (s', i) \<and> det s = det s')"
  using layout_rel [of T config constraints L rnd rnd']
  by (cases "layout T config constraints L rnd"; cases "layout T config constraints L rnd'") auto

lemma tryBody_rel:
  "map_option (map_sum id strip) (tryBody T rnd points config constraints)
   = map_option (map_sum id strip) (tryBody T rnd' points config constraints)"
proof (cases "siteOf T points")
  case (Inl e)
  then show ?thesis by (simp add: tryBody_def)
next
  case (Inr r)
  show ?thesis
  proof (cases r)
    case None
    then show ?thesis using Inr by (simp add: tryBody_def)
  next
    case (Some site)
    show ?thesis
    proof (cases "0 < length (turf_kinks T site) \<or> turf_area T site < 100")
      case True
      then show ?thesis using Inr Some by (auto simp: tryBody_def Let_def)
    next
      case False
      from layout_cases [of T config constraints "computeLocals T config site" rnd rnd']
      show ?thesis
      proof
        assume "\<exists>e. layout T config constraints (computeLocals T config site) rnd = Inl e \<and>
            layout T config constraints (computeLocals T config site) rnd' = Inl e"
        then show ?thesis using Inr Some False by (auto simp: tryBody_def Let_def)
      next
        assume "\<exists>s s' i. layout T config constraints (computeLocals T config site) rnd = Inr (s, i) \<and>
            layout T config constraints (computeLocals T config site) rnd' = Inr (s', i) \<and> det s = det s'"
        then obtain s s' i where
          "layout T config constraints (computeLocals T config site) rnd = Inr (s, i)"
          "layout T config constraints (computeLocals T config site) rnd' = Inr (s', i)"
          "det s = det s'" by blast
        then show ?thesis using Inr Some False finish_rel [of s s' T config "computeLocals T config site" site "turf_area T site" i]
          by (simp add: tryBody_def Let_def)
      qed
    qed
  qed
qed

lemma generateBuilding_rel:
  "map_option strip (generateBuilding T rnd points config constraints)
   = map_option strip (generateBuilding T rnd' points config constraints)"
proof (cases "length points < 3")
  case True
  then show ?thesis by (simp add: generateBuilding_def)
next
  case False
  show ?thesis
    using tryBody_rel [of T rnd points config constraints rnd'] False
    by (cases "tryBody T rnd points config constraints"; cases "tryBody T rnd' points config constraints")
       (auto simp: generateBuilding_def split: sum.splits)
qed


text \<open>
  C9: for fixed boundary points, configuration and constraints, two calls of
  \<open>generateBuilding\<close> with any two sequences of random numbers either both fail to
  return or return the same \<open>totalLots\<close>, \<open>siteArea\<close> and \<open>parkArea\<close>.
\<close>

theorem deterministic_statistics:
  "map_option (\<lambda>r. (totalLots (snd r), siteArea (snd r), parkArea (snd r)))
      (generateBuilding T rnd points config constraints)
   = map_option (\<lambda>r. (totalLots (snd r), siteArea (snd r), parkArea (snd r)))
      (generateBuilding T rnd' points config constraints)"
proof -
  have "map_option (\<lambda>r. (totalLots (snd r), siteArea (snd r), parkArea (snd r)))
          (map_option strip (generateBuilding T rnd points config constraints))
      = map_option (\<lambda>r. (totalLots (snd r), siteArea (snd r), parkArea (snd r)))
          (map_option strip (generateBuilding T rnd' points config constraints))"
    by (simp only: generateBuilding_rel [of T rnd points config constraints rnd'])
  then show ?thesis by (simp add: option.map_comp comp_def strip_def)
qed

subsection \<open>The run on the square site\<close>

lemma buildGate_nat:
  assumes "uniqueFiltered \<noteq> []" and "entryIndex config = real n"
  shows "\<exists>ac. buildGate T config uniqueFiltered = Inr ac
          \<and> entryPoint ac = \<lparr>lat = snd (midpoint (uniqueFiltered ! (n mod length uniqueFiltered))),
                               lng = fst (midpoint (uniqueFiltered ! (n mod length uniqueFiltered)))\<rparr>
          \<and> rotation ac = roadBearing (uniqueFiltered ! (n mod length uniqueFiltered))"
proof -
  have pos: "0 < length uniqueFiltered" using assms(1) by simp
  have idx: "n mod length uniqueFiltered < length uniqueFiltered" using pos by simp
  have sel: "arrayGet uniqueFiltered (jsRem (entryIndex config) (real (length uniqueFiltered)))
               = Some (uniqueFiltered ! (n mod length uniqueFiltered))"
    using assms(2) jsRem_nat [OF pos, of n] arrayGet_nat [OF idx] by simp
  show ?thesis
    by (simp add: buildGate_def sel Let_def split: prod.splits)
qed

lemma boxTurf_sel:
  "turf_polygon boxTurf = (\<lambda>rings. if list_all (\<lambda>r. 4 \<le> length r \<and> hd r = last r) rings
                               then Inr \<lparr>geometry = Polygon rings, properties = Map.empty\<rparr>
                               else Inl LibraryError)"
  "turf_cleanCoords boxTurf = Inr"
  "turf_rewind boxTurf = (\<lambda>f. f)"
  "turf_kinks boxTurf = (\<lambda>f. [])"
  "turf_area boxTurf = (\<lambda>f. case boxOf f of (x0, y0, x1, y1) \<Rightarrow>
                            ((x1 - x0) * 111320) * ((y1 - y0) * 111320))"
  "turf_center boxTurf = (\<lambda>f. case boxOf f of (x0, y0, x1, y1) \<Rightarrow> ((x0 + x1) / 2, (y0 + y1) / 2))"
  "turf_distance boxTurf = boxDistance"
  "turf_bearing boxTurf = boxBearing"
  "turf_transformRotate boxTurf = boxRotate"
  "turf_bbox boxTurf = boxOf"
  "turf_bboxPolygon boxTurf = boxPolygon"
  "turf_booleanIntersects boxTurf = (\<lambda>f g. boxMeet [f, g] \<noteq> None)"
  "turf_booleanPointInPolygon boxTurf = boxInside"
  "turf_intersect boxTurf = (\<lambda>fs. Inr (boxMeet fs))"
  "turf_difference boxTurf = boxMinus"
  "turf_union boxTurf = boxJoin"
  "turf_buffer boxTurf = (\<lambda>f r u. Inr None)"
  "turf_dissolve boxTurf = Inr"
  "turf_polygonToLine boxTurf = (\<lambda>f. case geometry f of
                                     Polygon (r # rs) \<Rightarrow> Inr (Feature (lineString r))
                                   | _ \<Rightarrow> Inl LibraryError)"
  "turf_lineIntersect boxTurf = boxLineIntersect"
  "turf_destination boxTurf = boxDestination"
  "turf_circle boxTurf = (\<lambda>c r u n. boxPolygon (fst c - r / 111.32, snd c - r / 111.32,
                                              fst c + r / 111.32, snd c + r / 111.32))"
  "turf_lineSplit boxTurf = (\<lambda>l m. case l of
                                  None \<Rightarrow> Inl TypeError
                                | Some lf \<Rightarrow> Inr (Some (edgesOf (coordsOf (geometry lf)))))"
  "turf_length boxTurf = boxLength"
  "turf_along boxTurf = boxAlong"
  by (simp_all add: boxTurf_def)

lemma squareLocals_sel:
  "center squareLocals = (20 / 111320, 0)" "alignmentAngle squareLocals = 0"
  "workingSitePoly squareLocals = squareSite" "workingEffectivePoly squareLocals = squareSite"
  "Mx squareLocals = 1 / 111320" "My squareLocals = 1 / 111320"
  "bbox squareLocals = (0, - 20 / 111320, 40 / 111320, 20 / 111320)"
  "blockDepthDeg squareLocals = 36 / 111320" "targetBlockWidthDeg squareLocals = 64 / 111320"
  "roadWidthDegX squareLocals = 12 / 111320" "roadWidthDegY squareLocals = 12 / 111320"
  "xStep squareLocals = 76 / 111320" "yStep squareLocals = 48 / 111320"
  "numCols squareLocals = 1" "numRows squareLocals = 1"
  "startX squareLocals = - 18 / 111320" "startY squareLocals = - 24 / 111320"
  by (simp_all add: squareLocals_def)

lemma runConfig_sel:
  "roadWidth runConfig = 12" "lotWidth runConfig = 8" "lotDepth runConfig = 18"
  "parkPercentage runConfig = 0" "entryIndex runConfig = 7"
  by (simp_all add: runConfig_def)

lemma boxOf_boxPolygon:
  "x0 \<le> x1 \<Longrightarrow> y0 \<le> y1 \<Longrightarrow> boxOf (boxPolygon (x0, y0, x1, y1)) = (x0, y0, x1, y1)"
  by (simp add: boxOf_def boxPolygon_def coordsOf_def)

lemma boxOf_props: "boxOf (f\<lparr>properties := p\<rparr>) = boxOf f"
  by (simp add: boxOf_def)

lemma boxOf_squareSite: "boxOf squareSite = (0, - 20 / 111320, 40 / 111320, 20 / 111320)"
  by (simp add: boxOf_def squareSite_def squareRing_def coordsOf_def)

lemma squareSite_geometry: "geometry squareSite = Polygon [squareRing]"
  by (simp add: squareSite_def)

lemma quarterTurn_zero: "quarterTurn 0 p = (\<lambda>c. c)"
  by (rule ext) (simp add: quarterTurn_def)

lemma boxRotate_zero: "boxRotate f 0 p = f"
  by (cases "geometry f") (simp_all add: boxRotate_def quarterTurn_zero)

lemma axis_square: "getPrincipalAxis boxTurf squareSite = 0"
  by (simp add: getPrincipalAxis_def squareSite_geometry squareRing_def boxTurf_sel boxDistance_def
        boxBearing_def)

lemma siteOf_square: "siteOf boxTurf square = Inr (Some squareSite)"
  by (simp add: siteOf_def boxTurf_sel square_def toRing_def coordinatesLength_def squareSite_def squareRing_def)

lemma locals_square: "computeLocals boxTurf runConfig squareSite = squareLocals"
  by (simp add: computeLocals_def boxTurf_sel boxOf_squareSite runConfig_sel axis_square
       boxRotate_zero lotsPerBlockRow_def Let_def squareLocals_def)

lemma gridCell_outside:
  assumes "x + 64 / 111320 \<le> 0 \<or> 40 / 111320 \<le> x
           \<or> real_of_int j * 48 + 12 \<le> - 20 \<or> 20 \<le> real_of_int j * 48 - 24"
  shows "gridCell boxTurf squareLocals c x j (gi, ins, r) =
    (gi, ins @ [(x + 70 / 111320, (real_of_int j * 48 + 18) / 111320)], r + 1)"
proof -
  let ?y = "startY squareLocals + real_of_int j * yStep squareLocals"
  have m: "boxMeet [boxPolygon (x, ?y, x + targetBlockWidthDeg squareLocals, ?y + blockDepthDeg squareLocals),
                    workingEffectivePoly squareLocals] = None"
    using assms
    by (auto simp add: squareLocals_sel boxMeet_def boxOf_boxPolygon boxOf_squareSite max_def min_def field_simps)
  have p: "(x + targetBlockWidthDeg squareLocals + roadWidthDegX squareLocals / 2,
            ?y + blockDepthDeg squareLocals + roadWidthDegY squareLocals / 2)
          = (x + 70 / 111320, (real_of_int j * 48 + 18) / 111320)"
    by (simp add: squareLocals_sel field_simps)
  show ?thesis
    unfolding gridCell_def Let_def boxTurf_sel
    by (simp only: m p) simp
qed

lemma gridCell_inside:
  assumes "x = - 18 / 111320" and "j = 0"
  shows "gridCell boxTurf squareLocals c x j (gi, ins, r) =
    (gi @ [squareBlock\<lparr>col := c, row := r\<rparr>], ins @ [(52 / 111320, 18 / 111320)], r + 1)"
  by (simp add: assms gridCell_def boxTurf_sel squareLocals_sel Let_def squareBlock_def
        boxMeet_def boxOf_boxPolygon boxOf_squareSite)

lemma grid_square: "buildGrid boxTurf squareLocals = ([squareBlock], squareIntersections)"
  by (simp add: buildGrid_def gridColumn_def bufferCols_def bufferRows_def upto_rec1 Let_def
        squareLocals_sel gridCell_outside gridCell_inside squareIntersections_def squareBlock_def)

lemma classify_square: "classify boxTurf runConfig [] [squareBlock] = [resBlock]"
  by (simp add: classify_def isForcedPark_def sumAreas_def runConfig_sel squareBlock_def resBlock_def)

lemma slice_bottom:
  "sliceLots boxTurf (boxPolygon (0, - 20 / 111320, 40 / 111320, - 6 / 111320))
     (0, - 20 / 111320, 40 / 111320, - 6 / 111320) 5 = bottomLots"
  by (simp add: sliceLots_def boxTurf_sel upto_rec1 Let_def boxMeet_def boxOf_boxPolygon bottomLots_def)

lemma slice_top:
  "sliceLots boxTurf (boxPolygon (0, - 6 / 111320, 40 / 111320, 12 / 111320))
     (0, - 6 / 111320, 40 / 111320, 12 / 111320) 5 = topLots"
  by (simp add: sliceLots_def boxTurf_sel upto_rec1 Let_def boxMeet_def boxOf_boxPolygon topLots_def)

lemma area_box:
  "x0 \<le> x1 \<Longrightarrow> y0 \<le> y1 \<Longrightarrow>
   turf_area boxTurf (boxPolygon (x0, y0, x1, y1)) = ((x1 - x0) * 111320) * ((y1 - y0) * 111320)"
  by (simp add: boxTurf_sel boxOf_boxPolygon)

lemma worst_bottom: "findWorst boxTurf (144 * 0.75) bottomLots 0 None None = None"
  by (simp add: bottomLots_def area_box)

lemma worst_top: "findWorst boxTurf (144 * 0.75) topLots 0 None None = None"
  by (simp add: topLots_def area_box)

lemma merge_bottom: "mergeLots boxTurf 144 bottomLots = bottomLots"
  using worst_bottom by (subst mergeLots.simps) (simp add: mergeStep_def)

lemma merge_top: "mergeLots boxTurf 144 topLots = topLots"
  using worst_top by (subst mergeLots.simps) (simp add: mergeStep_def)

lemma emitLot_fields:
  assumes "\<not> turf_area T lot < 20"
  shows "tempLots (emitLot T L b lot s) = tempLots s @ [tagLot L b (globalLotIndex s) lot]"
    and "tempParks (emitLot T L b lot s) = tempParks s"
    and "tempSuperblocks (emitLot T L b lot s) = tempSuperblocks s"
    and "globalLotIndex (emitLot T L b lot s) = globalLotIndex s + 1"
    and "lotsGeneratedInBlock (emitLot T L b lot s) = lotsGeneratedInBlock s + 1"
  using assms
  by (simp_all add: emitLot_def Let_def placeBuilding_frame placeTree_frame tagLot_def)

lemma fold_emitLot_fields:
  assumes "\<forall>lot \<in> set ls. \<not> turf_area T lot < 20"
  shows "tempLots (fold (emitLot T L b) ls s)
           = tempLots s @ map (\<lambda>(i, lot). tagLot L b i lot) (enumerate (globalLotIndex s) ls)
       \<and> tempParks (fold (emitLot T L b) ls s) = tempParks s
       \<and> tempSuperblocks (fold (emitLot T L b) ls s) = tempSuperblocks s
       \<and> globalLotIndex (fold (emitLot T L b) ls s) = globalLotIndex s + length ls
       \<and> lotsGeneratedInBlock (fold (emitLot T L b) ls s) = lotsGeneratedInBlock s + length ls"
  using assms
proof (induction ls arbitrary: s)
  case Nil
  then show ?case by simp
next
  case (Cons lot ls)
  have big: "\<not> turf_area T lot < 20" using Cons.prems by simp
  have rest: "\<forall>lot \<in> set ls. \<not> turf_area T lot < 20" using Cons.prems by simp
  show ?case
    using Cons.IH [OF rest, of "emitLot T L b lot s"]
    by (simp add: emitLot_fields [OF big])
qed

lemma zone_bottom:
  assumes "zone = boxPolygon (0, - 20 / 111320, 40 / 111320, - 6 / 111320)"
  shows "processOneZone boxTurf runConfig squareLocals True zone s
           = fold (emitLot boxTurf squareLocals True) bottomLots s"
proof -
  have l: "0 < length bottomLots" by (simp add: bottomLots_def)
  show ?thesis
    unfolding assms
    using l
    by (simp add: processOneZone_def runConfig_sel area_box boxTurf_sel(7,10) boxOf_boxPolygon
          boxDistance_def Let_def slice_bottom [simplified] merge_bottom)
qed

lemma zone_top:
  assumes "zone = boxPolygon (0, - 6 / 111320, 40 / 111320, 12 / 111320)"
  shows "processOneZone boxTurf runConfig squareLocals False zone s
           = fold (emitLot boxTurf squareLocals False) topLots s"
proof -
  have l: "0 < length topLots" by (simp add: topLots_def)
  show ?thesis
    unfolding assms
    using l
    by (simp add: processOneZone_def runConfig_sel area_box boxTurf_sel(7,10) boxOf_boxPolygon
          boxDistance_def Let_def slice_top [simplified] merge_top)
qed

lemma boxPolygon_geometry: "geometry (boxPolygon (x0, y0, x1, y1)) = Polygon [[(x0, y0), (x1, y0), (x1, y1), (x0, y1), (x0, y0)]]"
  by (simp add: boxPolygon_def)

lemma zonesOf_box: "zonesOf T (boxPolygon (x0, y0, x1, y1)) = Inr [boxPolygon (x0, y0, x1, y1)]"
  by (simp add: zonesOf_def boxPolygon_geometry)

lemma resBlock_sel:
  "poly resBlock = blockPoly"
  "originalBbox resBlock = (- 18 / 111320, - 24 / 111320, 46 / 111320, 12 / 111320)"
  "btype resBlock = Residential"
  by (simp_all add: resBlock_def squareBlock_def blockPoly_def)

lemma boxOf_blockPoly: "boxOf blockPoly = (0, - 20 / 111320, 40 / 111320, 12 / 111320)"
  by (simp add: blockPoly_def boxOf_boxPolygon)

lemma cut_bottom:
  assumes "gy \<le> - 20 / 111320" "gx0 \<le> gx1" "gy0 \<le> gy"
  shows "cutRoad boxTurf squareLocals f (boxPolygon (gx0, gy0, gx1, gy)) = f"
  using assms
  by (auto simp add: cutRoad_def boxTurf_sel squareLocals_sel boxMeet_def boxOf_boxPolygon boxOf_squareSite max_def min_def)

lemma cut_top:
  assumes "12 / 111320 \<le> gy0" "gx0 \<le> gx1" "gy0 \<le> gy1"
  shows "cutRoad boxTurf squareLocals blockPoly (boxPolygon (gx0, gy0, gx1, gy1)) = blockPoly"
  using assms
  by (auto simp add: cutRoad_def boxTurf_sel squareLocals_sel boxMeet_def boxMinus_def
        boxOf_boxPolygon boxOf_squareSite boxOf_blockPoly max_def min_def split: option.splits)

lemma block_square:
  "residentialBlock boxTurf runConfig squareLocals resBlock s =
     Inr (closeBlock boxTurf blockPoly
           (fold (emitLot boxTurf squareLocals False) topLots
             (fold (emitLot boxTurf squareLocals True) bottomLots (s\<lparr>lotsGeneratedInBlock := 0\<rparr>))))"
  by (simp add: residentialBlock_def boxTurf_sel(2,11,14) resBlock_sel squareLocals_sel Let_def
        cut_bottom cut_top boxMeet_def boxOf_boxPolygon boxOf_blockPoly
        processZone_def zonesOf_box zone_bottom zone_top)

lemma layout_square: "layout boxTurf runConfig [] squareLocals rnd = Inr (runState rnd, squareIntersections)"
  by (simp add: layout_def grid_square workingConstraints_def classify_square resBlock_sel
        block_square mergeParks_def runState_def)

lemma big_bottom: "\<forall>lot \<in> set bottomLots. \<not> turf_area boxTurf lot < 20"
  by (simp add: bottomLots_def area_box)

lemma big_top: "\<forall>lot \<in> set topLots. \<not> turf_area boxTurf lot < 20"
  by (simp add: topLots_def area_box)

lemma runState_fields:
  "tempLots (runState rnd) = runLots" "tempParks (runState rnd) = []"
  "tempSuperblocks (runState rnd) = [blockPoly]"
proof -
  let ?s0 = "(initState rnd)\<lparr>lotsGeneratedInBlock := 0\<rparr>"
  let ?s1 = "fold (emitLot boxTurf squareLocals True) bottomLots ?s0"
  let ?s2 = "fold (emitLot boxTurf squareLocals False) topLots ?s1"
  have f1: "tempLots ?s1 = map (\<lambda>(i, lot). tagLot squareLocals True i lot) (enumerate 0 bottomLots)"
    "tempParks ?s1 = []" "tempSuperblocks ?s1 = []" "globalLotIndex ?s1 = 5"
    "lotsGeneratedInBlock ?s1 = 5"
    using fold_emitLot_fields [OF big_bottom, of squareLocals True ?s0]
    by (simp_all add: initState_def) (simp_all add: bottomLots_def)
  have f2: "tempLots ?s2 = runLots" "tempParks ?s2 = []" "tempSuperblocks ?s2 = []"
    "lotsGeneratedInBlock ?s2 = 10"
    using fold_emitLot_fields [OF big_top, of squareLocals False ?s1] f1
    by (simp_all add: runLots_def) (simp_all add: topLots_def)
  show "tempLots (runState rnd) = runLots" "tempParks (runState rnd) = []"
    "tempSuperblocks (runState rnd) = [blockPoly]"
    using f2 by (simp_all add: runState_def closeBlock_def)
qed

lemma mark_outside:
  assumes "\<not> boxInside p squareSite"
  shows "markIntersection boxTurf config squareLocals pks pb p marks = Some (Inr marks)"
  using assms by (cases p) (simp add: markIntersection_def boxTurf_sel squareLocals_sel)

lemma markings_square: "roadMarkingsOf boxTurf config squareLocals [] squareIntersections = Some (Inr [])"
  by (simp add: roadMarkingsOf_def squareIntersections_def mark_outside boxInside_def boxOf_squareSite)

lemma rotateBack_square: "rotateBack boxTurf squareLocals fs = fs"
  by (simp add: rotateBack_def boxTurf_sel squareLocals_sel boxRotate_zero)

lemma boxOf_ringLine: "boxOf ringLine = (0, - 20 / 111320, 40 / 111320, 20 / 111320)"
  by (simp add: ringLine_def lineString_def boxOf_def coordsOf_def squareRing_def)

lemma boundary_square: "turf_polygonToLine boxTurf squareSite = Inr (Feature ringLine)"
  by (simp add: boxTurf_sel squareSite_geometry ringLine_def)

lemma coords_line2: "coordsOf (geometry (lineString [a, b])) = [a, b]"
  by (simp add: lineString_def coordsOf_def)

lemma cand_vertical_out:
  assumes "x \<le> 0 \<or> 40 / 111320 \<le> x" and "ya < yb"
  shows "candidatesOfLine boxTurf squareSite (Some ringLine) sb ps (lineString [(x, ya), (x, yb)], b) = Inr []"
  using assms
  by (auto simp add: candidatesOfLine_def boxTurf_sel boxLineIntersect_def boxOf_ringLine coords_line2)

lemma cand_horizontal_out:
  assumes "y \<le> - 20 / 111320 \<or> 20 / 111320 \<le> y" and "xa < xb"
  shows "candidatesOfLine boxTurf squareSite (Some ringLine) sb ps (lineString [(xa, y), (xb, y)], b) = Inr []"
  using assms
  by (auto simp add: candidatesOfLine_def boxTurf_sel boxLineIntersect_def boxOf_ringLine coords_line2)

lemma cand_horizontal_in:
  assumes "y = 18 / 111320" and "xa < 0" and "40 / 111320 < xb" and "b = 90"
  shows "candidatesOfLine boxTurf squareSite (Some ringLine) [blockPoly] [] (lineString [(xa, y), (xb, y)], b)
           = Inr [westGate, eastGate]"
  using assms(2,3)
  by (simp add: assms(1,4) candidatesOfLine_def boxTurf_sel boxLineIntersect_def boxOf_ringLine coords_line2
        boxDestination_def boxInside_def boxOf_squareSite boxOf_blockPoly westGate_def eastGate_def Let_def)

lemma found_square:
  "mapThrow (candidatesOfLine boxTurf squareSite (Some ringLine) [blockPoly] [])
      (roadProjectionLines boxTurf squareLocals)
   = Inr [[], [], [], [], [], [], [], [], [westGate, eastGate], [], [], []]"
  by (simp add: roadProjectionLines_def squareLocals_sel bufferCols_def bufferRows_def upto_rec1
        Let_def boxTurf_sel boxRotate_zero lineString_def [symmetric]
        cand_vertical_out cand_horizontal_out cand_horizontal_in)

lemma filtered_square:
  "sortByAngle boxTurf (center squareLocals) (dedupe boxTurf [westGate, eastGate])
     = [westGate, eastGate]"
  by (simp add: sortByAngle_def dedupe_def boxTurf_sel boxDistance_def boxBearing_def
        squareLocals_sel westGate_def eastGate_def)

lemma walls_square:
  assumes "entryPoint ac = \<lparr>lat = 18 / 111320, lng = 40 / 111320\<rparr>"
  shows "perimeter boxTurf runConfig (Some ringLine) (Some ac) = Inr (map Some (edgesOf squareRing))"
  by (simp add: perimeter_def cutoutMask_def cutoutRadius_def wallsAround_def assms runConfig_sel
        boxTurf_sel boxPolygon_geometry ringLine_def coordsOf_def lineString_def squareRing_def
        boxLength_def boxAlong_def boxDistance_def boxInside_def boxOf_boxPolygon Let_def)

lemma area_tagLot: "turf_area boxTurf (tagLot L b i lot) = turf_area boxTurf lot"
  by (simp add: boxTurf_sel tagLot_def boxOf_props)

lemma areas_square: "sumAreas boxTurf runLots = 1280"
  by (simp add: sumAreas_def runLots_def bottomLots_def topLots_def area_tagLot area_box)

lemma area_squareSite: "turf_area boxTurf squareSite = 1600"
  by (simp add: boxTurf_sel boxOf_squareSite)

lemma length_runLots: "length runLots = 10"
  by (simp add: runLots_def bottomLots_def topLots_def)

lemma finish_square:
  assumes fa: "findAccess boxTurf runConfig squareLocals squareSite (Some ringLine) [blockPoly] []
                 = Inr (Some ac, [westGate, eastGate])"
    and ep: "entryPoint ac = \<lparr>lat = 18 / 111320, lng = 40 / 111320\<rparr>"
  shows "finish boxTurf runConfig squareLocals squareSite 1600 (runState rnd) squareIntersections
    = Some (Inr
       (\<lparr>siteBoundary = Some squareSite, superblocks = [blockPoly], roads = [], lots = runLots,
          buildings = tempBuildings (runState rnd), parks = [], trees = tempTrees (runState rnd),
          perimeterWalls = map Some (edgesOf squareRing), accessControl = Some ac,
          roadMarkings = [], stopSigns = [],
          entranceCandidates = [\<lparr>lat = 18 / 111320, lng = 0\<rparr>, \<lparr>lat = 18 / 111320, lng = 40 / 111320\<rparr>],
          isValid = True, error = None\<rparr>,
        \<lparr>siteArea = 1600, netSellableArea = 1280, roadArea = 320, parkArea = 0, totalLots = 10,
          efficiency = 0.8, possibleEntrances = 2\<rparr>))"
  by (simp add: finish_def runState_fields markings_square rotateBack_square boundary_square
        boundaryLineOf_def fa walls_square [OF ep] areas_square length_runLots Let_def
        westGate_def eastGate_def)
     (simp add: sumAreas_def)


lemma access_square:
  "\<exists>ac. findAccess boxTurf runConfig squareLocals squareSite (Some ringLine) [blockPoly] []
            = Inr (Some ac, [westGate, eastGate])
        \<and> entryPoint ac = \<lparr>lat = 18 / 111320, lng = 40 / 111320\<rparr>"
proof -
  have ne: "[westGate, eastGate] \<noteq> []" by simp
  have ei: "entryIndex runConfig = real 7" by (simp add: runConfig_sel)
  obtain ac where ac: "buildGate boxTurf runConfig [westGate, eastGate] = Inr ac"
    "entryPoint ac = \<lparr>lat = snd (midpoint ([westGate, eastGate] ! (7 mod length [westGate, eastGate]))),
                       lng = fst (midpoint ([westGate, eastGate] ! (7 mod length [westGate, eastGate])))\<rparr>"
    using buildGate_nat [OF ne ei, of boxTurf] by blast
  have "findAccess boxTurf runConfig squareLocals squareSite (Some ringLine) [blockPoly] []
            = Inr (Some ac, [westGate, eastGate])"
    by (simp add: findAccess_def found_square filtered_square ac(1) Let_def)
  moreover have l: "length [westGate, eastGate] = 2" by simp
  have sel: "[westGate, eastGate] ! (7 mod length [westGate, eastGate]) = eastGate"
    unfolding l by simp
  have "entryPoint ac = \<lparr>lat = snd (midpoint eastGate), lng = fst (midpoint eastGate)\<rparr>"
    using ac(2) by (simp only: sel)
  then have "entryPoint ac = \<lparr>lat = 18 / 111320, lng = 40 / 111320\<rparr>"
    by (simp add: eastGate_def)
  ultimately show ?thesis by blast
qed


lemma square_run:
  "\<exists>ac. generateBuilding boxTurf rnd square runConfig [] = Some (runGeometry rnd ac, runStats)
        \<and> entryPoint ac = \<lparr>lat = 18 / 111320, lng = 40 / 111320\<rparr>"
proof -
  obtain ac where fa: "findAccess boxTurf runConfig squareLocals squareSite (Some ringLine) [blockPoly] []
            = Inr (Some ac, [westGate, eastGate])"
    and ep: "entryPoint ac = \<lparr>lat = 18 / 111320, lng = 40 / 111320\<rparr>"
    using access_square by blast
  have len: "\<not> length square < 3" by (simp add: square_def)
  have "tryBody boxTurf rnd square runConfig [] = Some (Inr (runGeometry rnd ac, runStats))"
    by (simp add: tryBody_def siteOf_square boxTurf_sel(4) area_squareSite locals_square
          layout_square finish_square [OF fa ep] runGeometry_def runStats_def)
  then show ?thesis using len ep by (auto simp: generateBuilding_def)
qed


theorem deterministic_statistics_witness:
  "map_option (\<lambda>r. (totalLots (snd r), siteArea (snd r), parkArea (snd r)))
      (generateBuilding boxTurf zeroRandom square runConfig [])
   = map_option (\<lambda>r. (totalLots (snd r), siteArea (snd r), parkArea (snd r)))
      (generateBuilding boxTurf halfRandom square runConfig [])
   \<and> map_option (\<lambda>r. (totalLots (snd r), siteArea (snd r), parkArea (snd r)))
      (generateBuilding boxTurf halfRandom square runConfig []) = Some (10, 1600, 0)"
proof -
  obtain ac where "generateBuilding boxTurf halfRandom square runConfig []
                     = Some (runGeometry halfRandom ac, runStats)"
    using square_run by blast
  then show ?thesis
    using deterministic_statistics [of boxTurf zeroRandom square runConfig "[]" halfRandom]
    by (simp add: runStats_def)
qed

subsection \<open>The entrance index\<close>








subsection \<open>The opening in the perimeter wall\<close>

lemma finish_valid:
  assumes "finish T config L site a s i = Some (Inr (g, st))"
  shows "siteBoundary g = Some site \<and>
         (\<exists>r. turf_polygonToLine T site = Inr r
            \<and> perimeter T config (boundaryLineOf r) (accessControl g) = Inr (perimeterWalls g))"
  using assms unfolding finish_def
  by (auto simp: Let_def split: option.splits sum.splits prod.splits)

lemma generateBuilding_valid:
  assumes "generateBuilding T rnd points config constraints = Some (g, st)" and "isValid g"
  shows "\<exists>site a s i. finish T config (computeLocals T config site) site a s i = Some (Inr (g, st))"
  using assms unfolding generateBuilding_def tryBody_def
  by (auto simp: Let_def emptyGeometry_def split: if_splits option.splits sum.splits prod.splits)


text \<open>
  C7, as the code has it: in every valid result the walls come from the boundary
  line of the site. With no gate they are that one line, unbroken. With a gate
  they are the pieces that \<open>wallsAround\<close> keeps of the line split by the 16-step
  circle around the entry point whose radius, in kilometres, is 0.6 times the
  road width in metres over 1000: 0.6 of the whole road width, not of its half.
\<close>

theorem perimeter_walls:
  assumes "generateBuilding T rnd points config constraints = Some (g, st)" and "isValid g"
  shows "\<exists>site r. siteBoundary g = Some site \<and> turf_polygonToLine T site = Inr r \<and>
     (case accessControl g of
        None \<Rightarrow> perimeterWalls g = [boundaryLineOf r]
      | Some ac \<Rightarrow>
          wallsAround T (boundaryLineOf r)
            (turf_circle T (lng (entryPoint ac), lat (entryPoint ac))
               (0.6 * roadWidth config / 1000) Kilometers 16)
          = Inr (perimeterWalls g))"
proof -
  obtain site a s i where "finish T config (computeLocals T config site) site a s i = Some (Inr (g, st))"
    using generateBuilding_valid [OF assms] by blast
  then obtain r where r: "siteBoundary g = Some site" "turf_polygonToLine T site = Inr r"
    "perimeter T config (boundaryLineOf r) (accessControl g) = Inr (perimeterWalls g)"
    using finish_valid by blast
  have cr: "cutoutRadius config = 0.6 * roadWidth config / 1000"
    by (simp add: cutoutRadius_def)
  show ?thesis
  proof (cases "accessControl g")
    case None
    then show ?thesis using r by (simp add: perimeter_def)
  next
    case (Some ac)
    have "wallsAround T (boundaryLineOf r)
            (turf_circle T (lng (entryPoint ac), lat (entryPoint ac)) (cutoutRadius config) Kilometers 16)
          = Inr (perimeterWalls g)"
      using r Some by (simp add: perimeter_def cutoutMask_def Let_def)
    then show ?thesis using r Some cr by simp
  qed
qed

theorem perimeter_walls_witness:
  "\<exists>g st ac. generateBuilding boxTurf halfRandom square runConfig [] = Some (g, st)
      \<and> isValid g \<and> accessControl g = Some ac \<and> siteBoundary g = Some squareSite
      \<and> turf_polygonToLine boxTurf squareSite = Inr (Feature ringLine)
      \<and> wallsAround boxTurf (boundaryLineOf (Feature ringLine))
            (turf_circle boxTurf (lng (entryPoint ac), lat (entryPoint ac))
               (0.6 * roadWidth runConfig / 1000) Kilometers 16)
          = Inr (perimeterWalls g)
      \<and> perimeterWalls g = map Some (edgesOf squareRing)"
proof -
  obtain ac where run: "generateBuilding boxTurf halfRandom square runConfig []
                     = Some (runGeometry halfRandom ac, runStats)"
    using square_run by blast
  have valid: "isValid (runGeometry halfRandom ac)" by (simp add: runGeometry_def)
  obtain site r where w: "siteBoundary (runGeometry halfRandom ac) = Some site"
    "turf_polygonToLine boxTurf site = Inr r"
    "(case accessControl (runGeometry halfRandom ac) of
        None \<Rightarrow> perimeterWalls (runGeometry halfRandom ac) = [boundaryLineOf r]
      | Some a \<Rightarrow>
          wallsAround boxTurf (boundaryLineOf r)
            (turf_circle boxTurf (lng (entryPoint a), lat (entryPoint a))
               (0.6 * roadWidth runConfig / 1000) Kilometers 16)
          = Inr (perimeterWalls (runGeometry halfRandom ac)))"
    using perimeter_walls [OF run valid] by blast
  have site: "site = squareSite" using w(1) by (simp add: runGeometry_def)
  have r: "r = Feature ringLine" using w(2) by (simp add: site boundary_square)
  have ac: "accessControl (runGeometry halfRandom ac) = Some ac" by (simp add: runGeometry_def)
  have "wallsAround boxTurf (boundaryLineOf (Feature ringLine))
            (turf_circle boxTurf (lng (entryPoint ac), lat (entryPoint ac))
               (0.6 * roadWidth runConfig / 1000) Kilometers 16)
          = Inr (perimeterWalls (runGeometry halfRandom ac))"
    using w(3) by (simp only: ac r option.case)
  moreover have "perimeterWalls (runGeometry halfRandom ac) = map Some (edgesOf squareRing)"
    "siteBoundary (runGeometry halfRandom ac) = Some squareSite"
    by (simp_all add: runGeometry_def)
  ultimately show ?thesis using run valid ac boundary_square by blast
qed

text \<open>C7 as stated fails: for a road of 12 m the circle has a radius of 7.2 m,
  not of 3.6 m.\<close>

theorem notch_radius_counterexample:
  "roadWidth runConfig = 12
   \<and> cutoutRadius runConfig = 72 / 10000
   \<and> cutoutRadius runConfig \<noteq> 0.6 * (roadWidth runConfig / 2) / 1000
   \<and> cutoutRadius runConfig * 1000 \<noteq> 0.6 * (roadWidth runConfig / 2)"
  by (simp add: cutoutRadius_def runConfig_def)

subsection \<open>Valid boundaries\<close>


























end
